theory Spec2Isabelle
  imports Complex_Main
begin

section \<open>Noise walls of EEG recordings: a model of NoiseWall.py\<close>

text \<open>
  The class \<^verbatim>\<open>NoiseWall\<close> of \<^verbatim>\<open>src/NoiseWall.py\<close> is modelled as a record of its
  attributes together with one function per method.  A method takes the object and
  returns the outcome (\<open>Inr\<close> the returned value, \<open>Inl\<close> the exception raised) paired
  with the object as the method left it, so that an attribute written before a
  \<^verbatim>\<open>raise\<close> is still written afterwards, as in Python.

  Numbers: Python's and numpy's float64 values are modelled as \<^typ>\<open>real\<close>.  The model
  has no \<^verbatim>\<open>inf\<close> and no \<^verbatim>\<open>nan\<close>, and no rounding.  Where numpy would leave the reals
  (a division by zero, the square root of a negative number: numpy warns and carries on
  with \<^verbatim>\<open>inf\<close> or \<^verbatim>\<open>nan\<close>) the model stops with the outcome \<open>NonFinite\<close>, which
  is not a Python exception but the end of what the model describes.
\<close>

subsection \<open>Exceptions and outcomes\<close>

datatype error =
    NoiseWallException string  \<comment> \<open>the class's own exception, with its reason\<close>
  | AttributeError             \<comment> \<open>an attribute is read before it was ever assigned\<close>
  | IndexError                 \<comment> \<open>an array is indexed out of range\<close>
  | ValueError                 \<comment> \<open>math domain error, a value outside an interpolation
                                   range, shapes that do not broadcast, a bad filter band\<close>
  | ZeroDivisionError          \<comment> \<open>a Python number divided by a Python zero\<close>
  | NonFinite                  \<comment> \<open>numpy carries on with inf or nan: outside the model\<close>

definition DATA_INVALID :: string where
  "DATA_INVALID = ''Data invalid''"

definition MIN_VAR_NEG :: string where
  "MIN_VAR_NEG = ''Min variance less than pure EEG var''"

definition MAX_VAR_NEG :: string where
  "MAX_VAR_NEG = ''Max variance less than pure EEG var''"

definition MIN_VAR_LARGER_THAN_MAX_VAR :: string where
  "MIN_VAR_LARGER_THAN_MAX_VAR = ''Min variance larger than max variance''"

definition MIN_VAR_UNUSUALLY_HIGH :: string where
  "MIN_VAR_UNUSUALLY_HIGH = ''Unusually high Min variance''"

subsection \<open>The object\<close>

text \<open>
  An attribute that \<^verbatim>\<open>__init__\<close> always assigns is a plain field.  Every other
  attribute is an \<open>option\<close>: \<open>None\<close> until a method assigns it, and reading it then
  raises \<^verbatim>\<open>AttributeError\<close>.
\<close>

record NoiseWall =
  f_signal_min :: int
  f_signal_max :: int
  noiseReduction :: real
  consciousEEGgain :: real
  dataok :: bool
  subdir :: string
  data :: "(real \<times> real \<times> real \<times> real) list option"
  zero_data :: "real option"
  zero_video :: "real option"
  artefact :: "(real \<times> real) list option"
  relaxed :: "(real \<times> real) option"
  t :: "real list option"
  eeg :: "real list option"
  emg :: "real list option"
  trigger :: "real list option"
  fs :: "int option"
  T :: "real option"
  eegFilterFrequencyResponse :: "real list option"
  pureEEGVar :: "real option"
  noiseVarMin :: "real option"
  noiseVarMax :: "real option"
  rho :: "real option"
  SNRwall :: "real option"
  consciousEEGvar :: "real option"
  SNR :: "real option"

type_synonym 'a action = "NoiseWall \<Rightarrow> (error + 'a) \<times> NoiseWall"

definition return :: "'a \<Rightarrow> 'a action" where
  "return a = (\<lambda>s. (Inr a, s))"

definition raise :: "error \<Rightarrow> 'a action" where
  "raise e = (\<lambda>s. (Inl e, s))"

definition bind :: "'a action \<Rightarrow> ('a \<Rightarrow> 'b action) \<Rightarrow> 'b action" where
  "bind m f = (\<lambda>s. case m s of (Inl e, s') \<Rightarrow> (Inl e, s') | (Inr a, s') \<Rightarrow> f a s')"

definition seq :: "unit action \<Rightarrow> 'b action \<Rightarrow> 'b action" where
  "seq m k = bind m (\<lambda>_. k)"

definition lift :: "error + 'a \<Rightarrow> 'a action" where
  "lift r = (\<lambda>s. (r, s))"

definition getattr :: "(NoiseWall \<Rightarrow> 'a option) \<Rightarrow> 'a action" where
  "getattr field = (\<lambda>s. case field s of None \<Rightarrow> (Inl AttributeError, s) | Some a \<Rightarrow> (Inr a, s))"

definition setattr :: "(NoiseWall \<Rightarrow> NoiseWall) \<Rightarrow> unit action" where
  "setattr upd = (\<lambda>s. (Inr (), upd s))"

subsection \<open>What the program takes from outside\<close>

text \<open>
  The files of the dataset and the routines of numpy and scipy are not code of this
  program.  They are the fields of one record that every method takes as its first
  argument, so that whatever is proved holds for every dataset and for every behaviour
  of the routines.  \<^verbatim>\<open>np.loadtxt\<close> is one field per shape of file the program reads;
  a file is taken to exist and to have its shape.
\<close>

datatype btype = Lowpass | Highpass | Bandstop | Bandpass

record library =
  loadtxt_token :: "string \<Rightarrow> string"
  loadtxt_table :: "string \<Rightarrow> (real \<times> real \<times> real \<times> real) list"
  loadtxt_scalar :: "string \<Rightarrow> real"
  loadtxt_rows :: "string \<Rightarrow> (real \<times> real) list"
  loadtxt_pair :: "string \<Rightarrow> real \<times> real"
  interp1d_cubic :: "real list \<Rightarrow> real list \<Rightarrow> error + (real \<Rightarrow> error + real)"
  np_var :: "real list \<Rightarrow> real"
  np_median :: "real list \<Rightarrow> real"
  butter :: "nat \<Rightarrow> real list \<Rightarrow> btype \<Rightarrow> error + (real list \<times> real list)"
  lfilter :: "real list \<Rightarrow> real list \<Rightarrow> real list \<Rightarrow> real list"
  freqz :: "real list \<Rightarrow> real list \<Rightarrow> int \<Rightarrow> complex list"

definition py_divide :: "real \<Rightarrow> real \<Rightarrow> error + real" where
  \<comment> \<open>\<^verbatim>\<open>/\<close> between Python numbers\<close>
  "py_divide x y = (if y = 0 then Inl ZeroDivisionError else Inr (x / y))"

definition np_array_divide :: "real list \<Rightarrow> real \<Rightarrow> error + real list" where
  \<comment> \<open>an array divided by a scalar, element by element\<close>
  "np_array_divide xs y = (if y = 0 \<and> xs \<noteq> [] then Inl NonFinite else Inr (map (\<lambda>x. x / y) xs))"

definition np_multiply :: "real list \<Rightarrow> real list \<Rightarrow> error + real list" where
  \<comment> \<open>\<^verbatim>\<open>*\<close> between one-dimensional arrays: element by element, an array of length
      one is broadcast, any other pair of lengths raises\<close>
  "np_multiply xs ys =
     (if length xs = length ys then Inr (map2 (\<lambda>x y. x * y) xs ys)
      else if length xs = 1 then Inr (map (\<lambda>y. hd xs * y) ys)
      else if length ys = 1 then Inr (map (\<lambda>x. x * hd ys) xs)
      else Inl ValueError)"

definition np_getitem :: "real list \<Rightarrow> int \<Rightarrow> error + real" where
  \<comment> \<open>\<^verbatim>\<open>xs[i]\<close>: a negative index counts from the end\<close>
  "np_getitem xs i =
     (if 0 \<le> i \<and> i < int (length xs) then Inr (xs ! nat i)
      else if i < 0 \<and> - int (length xs) \<le> i then Inr (xs ! nat (int (length xs) + i))
      else Inl IndexError)"

definition py_slice :: "'a list \<Rightarrow> int \<Rightarrow> int \<Rightarrow> 'a list" where
  \<comment> \<open>\<^verbatim>\<open>xs[t1:t2]\<close>: negative bounds count from the end, both are clipped\<close>
  "py_slice xs t1 t2 =
     (let n = int (length xs);
          i = (if t1 < 0 then max (t1 + n) 0 else min t1 n);
          j = (if t2 < 0 then max (t2 + n) 0 else min t2 n)
      in take (nat (j - i)) (drop (nat i) xs))"

definition np_arange :: "int \<Rightarrow> int \<Rightarrow> int list" where
  \<comment> \<open>\<^verbatim>\<open>np.arange(a, b)\<close> on integers: a, a + 1, ..., b - 1\<close>
  "np_arange a b = [a..b - 1]"

subsection \<open>The constructor and the loader (lines 25 to 99)\<close>

definition dataset676dir :: string where
  "dataset676dir = ''../dataset_676''"

definition digit :: "nat \<Rightarrow> char" where
  "digit n = ''0123456789'' ! n"

function str_nat :: "nat \<Rightarrow> string" where
  "str_nat n = (if n < 10 then [digit n] else str_nat (n div 10) @ [digit (n mod 10)])"
  by pat_completeness auto
termination
  by (relation "measure (\<lambda>n. n)") auto

declare str_nat.simps [simp del]

definition format_02d :: "nat \<Rightarrow> string" where
  \<comment> \<open>\<^verbatim>\<open>"%02d" % subj\<close>, for a subject number that is not negative\<close>
  "format_02d n = (if n < 10 then CHR ''0'' # str_nat n else str_nat n)"

definition loadDataFromFile :: "library \<Rightarrow> string \<Rightarrow> NoiseWall \<Rightarrow> NoiseWall" where
  "loadDataFromFile L dir s =
     (let d = loadtxt_table L (dir @ ''emgeeg.dat'');
          corrfactor = 2;
          e = map (\<lambda>(c0, c1, c2, c3). c1 / 500 * corrfactor) d;
          period = 1 / 1000
      in s\<lparr>data := Some d,
            zero_data := Some (loadtxt_scalar L (dir @ ''zero_time_data.dat'')),
            zero_video := Some (loadtxt_scalar L (dir @ ''zero_time_video.dat'')),
            artefact := Some (loadtxt_rows L (dir @ ''artefact.dat'')),
            relaxed := Some (loadtxt_pair L (dir @ ''dataok.dat'')),
            emg := Some (map (\<lambda>(c0, c1, c2, c3). c2) d),
            trigger := Some (map (\<lambda>(c0, c1, c2, c3). c3) d),
            eeg := Some e,
            fs := Some 1000,
            T := Some period,
            t := Some (map (\<lambda>k. real k * period) [0..<length e])\<rparr>)"

definition init :: "library \<Rightarrow> nat \<Rightarrow> string \<Rightarrow> NoiseWall" where
  "init L subj experiment =
     (let sj = format_02d subj;
          d = loadtxt_token L (dataset676dir @ ''/experiment_data/subj'' @ sj @ ''/'' @ ''all_exp_ok.dat'');
          ok = (d \<in> set [''True'', ''true'', ''ok'', ''OK'']);
          dir = dataset676dir @ ''/experiment_data/subj'' @ sj @ ''/'' @ experiment @ ''/'';
          s = \<lparr>f_signal_min = 1, f_signal_max = 95, noiseReduction = 1, consciousEEGgain = 1,
               dataok = ok, subdir = dir,
               data = None, zero_data = None, zero_video = None, artefact = None,
               relaxed = None, t = None, eeg = None, emg = None, trigger = None, fs = None,
               T = None, eegFilterFrequencyResponse = None, pureEEGVar = None,
               noiseVarMin = None, noiseVarMax = None, rho = None, SNRwall = None,
               consciousEEGvar = None, SNR = None\<rparr>
      in if ok then loadDataFromFile L dir s else s)"

subsection \<open>The reference EEG variance (lines 59 to 77)\<close>

fun bandpower_loop :: "(real \<Rightarrow> error + real) \<Rightarrow> int list \<Rightarrow> real \<Rightarrow> real action" where
  "bandpower_loop psd [] bandpower = return bandpower"
| "bandpower_loop psd (f2 # rest) bandpower =
     bind (lift (psd (of_int f2))) (\<lambda>lp.
     bind (getattr eegFilterFrequencyResponse) (\<lambda>resp.
     bind (lift (np_getitem resp f2)) (\<lambda>h.
     bandpower_loop psd rest (bandpower + (10 powr lp) * h ^ 2))))"

definition readParalysedEEGVarianceFromWhithamEtAl :: "library \<Rightarrow> string \<Rightarrow> real action" where
  "readParalysedEEGVarianceFromWhithamEtAl L filename =
     (let a = loadtxt_rows L filename;
          f = map fst a;
          p = map snd a
      in bind (lift (interp1d_cubic L f p)) (\<lambda>psd.
         bind (\<lambda>s. (Inr (np_arange (f_signal_min s) (f_signal_max s)), s)) (\<lambda>fr.
         bandpower_loop psd fr 0)))"

definition add_pureEEGVar :: "library \<Rightarrow> string \<Rightarrow> unit action" where
  \<comment> \<open>one of the six lines 71 to 76\<close>
  "add_pureEEGVar L filename =
     bind (getattr pureEEGVar) (\<lambda>v.
     bind (readParalysedEEGVarianceFromWhithamEtAl L filename) (\<lambda>b.
     setattr (\<lambda>s. s\<lparr>pureEEGVar := Some (v + b)\<rparr>)))"

definition calculateParalysedEEGVariance :: "library \<Rightarrow> unit action" where
  "calculateParalysedEEGVariance L =
     seq (setattr (\<lambda>s. s\<lparr>pureEEGVar := Some 0\<rparr>)) (
     seq (add_pureEEGVar L ''sub1a.dat'') (
     seq (add_pureEEGVar L ''sub1b.dat'') (
     seq (add_pureEEGVar L ''sub1c.dat'') (
     seq (add_pureEEGVar L ''sub2a.dat'') (
     seq (add_pureEEGVar L ''sub2b.dat'') (
     seq (add_pureEEGVar L ''sub2c.dat'') (
     bind (getattr pureEEGVar) (\<lambda>v.
     setattr (\<lambda>s. s\<lparr>pureEEGVar := Some (v / 6)\<rparr>)))))))))"

subsection \<open>Arithmetic of numpy and math\<close>

definition np_divide :: "real \<Rightarrow> real \<Rightarrow> error + real" where
  "np_divide x y = (if y = 0 then Inl NonFinite else Inr (x / y))"

definition np_sqrt :: "real \<Rightarrow> error + real" where
  "np_sqrt x = (if x < 0 then Inl NonFinite else Inr (sqrt x))"

definition math_log10 :: "real \<Rightarrow> error + real" where
  \<comment> \<open>\<^verbatim>\<open>math.log10\<close> raises \<^verbatim>\<open>ValueError: math domain error\<close> at zero and below\<close>
  "math_log10 x = (if x \<le> 0 then Inl ValueError else Inr (log 10 x))"

definition py_int :: "real \<Rightarrow> int" where
  \<comment> \<open>\<^verbatim>\<open>int(x)\<close> truncates towards zero\<close>
  "py_int x = (if 0 \<le> x then \<lfloor>x\<rfloor> else \<lceil>x\<rceil>)"

subsection \<open>The filter pipeline (lines 102 to 154)\<close>

definition calcFrequencyResponse :: "library \<Rightarrow> real list \<Rightarrow> real list \<Rightarrow> real list \<Rightarrow> real list action" where
  "calcFrequencyResponse L b a h_in =
     bind (getattr fs) (\<lambda>rate.
     (let h_new = freqz L b a (py_int (of_int rate / 2))
      in if length h_in < 1 then return (map cmod h_new)
         else lift (np_multiply (map cmod h_new) h_in)))"

definition normalised :: "real \<Rightarrow> real action" where
  \<comment> \<open>\<^verbatim>\<open>f/self.fs*2\<close>: a frequency as a fraction of the Nyquist frequency\<close>
  "normalised f =
     bind (getattr fs) (\<lambda>rate.
     bind (lift (py_divide f (of_int rate))) (\<lambda>q.
     return (q * 2)))"

definition apply_lfilter :: "library \<Rightarrow> real list \<Rightarrow> real list \<Rightarrow> unit action" where
  \<comment> \<open>\<^verbatim>\<open>self.eeg = signal.lfilter(b,a,self.eeg)\<close>\<close>
  "apply_lfilter L b a =
     bind (getattr eeg) (\<lambda>x.
     setattr (\<lambda>s. s\<lparr>eeg := Some (lfilter L b a x)\<rparr>))"

text \<open>
  \<^verbatim>\<open>filterData\<close> is one method; \<^verbatim>\<open>fresp\<close> is a local variable of it.  To speak about the
  value of \<^verbatim>\<open>fresp\<close> between two blocks of the method, each block is a function here,
  named after the block's comment, that takes \<^verbatim>\<open>fresp\<close> and returns it.
\<close>

definition filterData_smooth :: "library \<Rightarrow> real list action" where
  \<comment> \<open>lines 116 to 119: smooth it at 100Hz cutoff\<close>
  "filterData_smooth L =
     bind (normalised 100) (\<lambda>w.
     bind (lift (butter L 6 [w] Lowpass)) (\<lambda>(bLP, aLP).
     seq (apply_lfilter L bLP aLP) (
     calcFrequencyResponse L bLP aLP [])))"

definition filterData_highpass_notch :: "library \<Rightarrow> real list \<Rightarrow> real list action" where
  \<comment> \<open>lines 121 to 125: highpass at 1Hz and 50Hz notch\<close>
  "filterData_highpass_notch L fresp =
     bind (normalised 49) (\<lambda>w1.
     bind (normalised 51) (\<lambda>w2.
     bind (lift (butter L 2 [w1, w2] Bandstop)) (\<lambda>(bfilt50hz, afilt50hz).
     bind (normalised 0.5) (\<lambda>w.
     bind (lift (butter L 4 [w] Highpass)) (\<lambda>(bhp, ahp).
     seq (bind (getattr eeg) (\<lambda>x.
          setattr (\<lambda>s. s\<lparr>eeg := Some (lfilter L bhp ahp (lfilter L bfilt50hz afilt50hz x))\<rparr>))) (
     calcFrequencyResponse L bhp ahp fresp))))))"

definition filterData_notch25 :: "library \<Rightarrow> real list \<Rightarrow> real list action" where
  \<comment> \<open>lines 127 to 130: strange 25 Hz interference\<close>
  "filterData_notch25 L fresp =
     bind (normalised 24) (\<lambda>w1.
     bind (normalised 26) (\<lambda>w2.
     bind (lift (butter L 2 [w1, w2] Bandstop)) (\<lambda>(bfilt25hz, afilt25hz).
     seq (apply_lfilter L bfilt25hz afilt25hz) (
     calcFrequencyResponse L bfilt25hz afilt25hz fresp))))"

definition filterData_notch50 :: "library \<Rightarrow> real list \<Rightarrow> real list action" where
  \<comment> \<open>lines 132 to 135: 50 Hz interference\<close>
  "filterData_notch50 L fresp =
     bind (normalised 49) (\<lambda>w1.
     bind (normalised 51) (\<lambda>w2.
     bind (lift (butter L 2 [w1, w2] Bandstop)) (\<lambda>(bfilt50hz, afilt50hz).
     seq (apply_lfilter L bfilt50hz afilt50hz) (
     calcFrequencyResponse L bfilt50hz afilt50hz fresp))))"

definition filterData_stages :: "library \<Rightarrow> real list action" where
  \<comment> \<open>lines 116 to 135, returning \<^verbatim>\<open>fresp\<close> as it stands at line 136\<close>
  "filterData_stages L =
     bind (filterData_smooth L) (\<lambda>fresp.
     bind (filterData_highpass_notch L fresp) (\<lambda>fresp.
     bind (filterData_notch25 L fresp) (\<lambda>fresp.
     filterData_notch50 L fresp)))"

fun filterData_repeat :: "library \<Rightarrow> real list \<Rightarrow> real list \<Rightarrow> nat \<Rightarrow> real list \<Rightarrow> unit action" where
  \<comment> \<open>lines 151 to 154: the loop, with the passes still to run\<close>
  "filterData_repeat L bfiltbp afiltbp 0 fresp = return ()"
| "filterData_repeat L bfiltbp afiltbp (Suc n) fresp =
     seq (apply_lfilter L bfiltbp afiltbp) (
     bind (calcFrequencyResponse L bfiltbp afiltbp fresp) (\<lambda>fresp'.
     seq (setattr (\<lambda>s. s\<lparr>eegFilterFrequencyResponse := Some fresp'\<rparr>)) (
     filterData_repeat L bfiltbp afiltbp n fresp')))"

definition filterData_band :: "library \<Rightarrow> real \<Rightarrow> real \<Rightarrow> real list \<Rightarrow> unit action" where
  \<comment> \<open>lines 137 to 154\<close>
  "filterData_band L band_low band_high fresp =
     seq (if band_high > 0 \<and> band_low > 0 \<and> band_low < band_high then
            bind (normalised band_low) (\<lambda>w1.
            bind (normalised band_high) (\<lambda>w2.
            bind (lift (butter L 4 [w1, w2] Bandpass)) (\<lambda>(bfiltbp, afiltbp).
            seq (apply_lfilter L bfiltbp afiltbp) (
            bind (calcFrequencyResponse L bfiltbp afiltbp fresp) (\<lambda>h.
            setattr (\<lambda>s. s\<lparr>eegFilterFrequencyResponse := Some h\<rparr>))))))
          else return ()) (
     if band_low < 0 then
       filterData_repeat L [0.25, 0.25, 0.25, 0.25, -0.25, -0.25, -0.25, -0.25] [1]
         (nat (- py_int band_low)) fresp
     else return ())"

definition filterData :: "library \<Rightarrow> real \<Rightarrow> real \<Rightarrow> unit action" where
  "filterData L band_low band_high =
     bind (filterData_stages L) (\<lambda>fresp.
     filterData_band L band_low band_high fresp)"

subsection \<open>The noise estimator (lines 157 to 198)\<close>

definition getMinNoiseVarEEGChunk :: "real list action" where
  "getMinNoiseVarEEGChunk =
     bind (getattr zero_data) (\<lambda>zd.
     bind (getattr zero_video) (\<lambda>zv.
     (let dt = zd - zv in
     bind (getattr fs) (\<lambda>rate.
     bind (getattr relaxed) (\<lambda>rel.
     (let t1 = py_int (of_int rate * (fst rel + dt)) in
     bind (getattr fs) (\<lambda>rate.
     bind (getattr relaxed) (\<lambda>rel.
     (let t2 = py_int (of_int rate * (snd rel + dt)) in
     bind (getattr eeg) (\<lambda>x.
     return (py_slice x t1 t2)))))))))))"

definition calcNoiseVarMin :: "library \<Rightarrow> unit action" where
  \<comment> \<open>\<^verbatim>\<open>yMinVar**0.5\<close> is reached only when \<^verbatim>\<open>yMinVar\<close> is not negative, where it is the
      square root\<close>
  "calcNoiseVarMin L =
     bind getMinNoiseVarEEGChunk (\<lambda>chunk.
     bind (\<lambda>s. (np_array_divide chunk (noiseReduction s), s)) (\<lambda>yMin.
     (let yMinVar = np_var L yMin in
     seq (setattr (\<lambda>s. s\<lparr>noiseVarMin := Some yMinVar\<rparr>)) (
     bind (getattr noiseVarMin) (\<lambda>v.
     if v < 0 then raise (NoiseWallException MIN_VAR_NEG)
     else if sqrt yMinVar > 50 / 10 ^ 6 then raise (NoiseWallException MIN_VAR_UNUSUALLY_HIGH)
     else return ())))))"

fun calcNoiseVarMax_loop :: "library \<Rightarrow> (real \<times> real) list \<Rightarrow> real list \<Rightarrow> real list action" where
  \<comment> \<open>lines 187 to 194, over the rows (tbegin[i], tend[i]) still to visit\<close>
  "calcNoiseVarMax_loop L [] maxVarList = return maxVarList"
| "calcNoiseVarMax_loop L ((tb, te) # rest) maxVarList =
     bind (getattr fs) (\<lambda>rate.
     (let t1 = py_int (of_int rate * tb) in
     bind (getattr fs) (\<lambda>rate.
     (let t2 = py_int (of_int rate * te) in
     bind (getattr eeg) (\<lambda>x.
     bind (\<lambda>s. (np_array_divide (py_slice x t1 t2) (noiseReduction s), s)) (\<lambda>signalWithArtefact.
     calcNoiseVarMax_loop L rest (maxVarList @ [np_var L signalWithArtefact])))))))"

definition calcNoiseVarMax :: "library \<Rightarrow> unit action" where
  "calcNoiseVarMax L =
     bind (getattr artefact) (\<lambda>rows.
     bind (getattr artefact) (\<lambda>rows'.
     bind (getattr zero_data) (\<lambda>zd.
     bind (getattr zero_video) (\<lambda>zv.
     (let dt = zd - zv;
          tbegin = map (\<lambda>r. fst r + dt) rows;
          tend = map (\<lambda>r. snd r + dt) rows'
      in
     bind (calcNoiseVarMax_loop L (zip tbegin tend) []) (\<lambda>maxVarList.
     seq (setattr (\<lambda>s. s\<lparr>noiseVarMax := Some (np_median L maxVarList)\<rparr>)) (
     bind (getattr noiseVarMax) (\<lambda>v.
     if v < 0 then raise (NoiseWallException MAX_VAR_NEG) else return ()))))))))"

subsection \<open>Wall and SNR (lines 200 to 215)\<close>

definition calcRho :: "unit action" where
  "calcRho =
     bind (getattr noiseVarMax) (\<lambda>mx.
     bind (getattr noiseVarMin) (\<lambda>mn.
     bind (lift (np_divide mx mn)) (\<lambda>q.
     bind (lift (np_sqrt q)) (\<lambda>r.
     setattr (\<lambda>s. s\<lparr>rho := Some r\<rparr>)))))"

definition calcNoiseWall :: "unit action" where
  "calcNoiseWall =
     bind (getattr rho) (\<lambda>r.
     if r < 1 then raise (NoiseWallException MIN_VAR_LARGER_THAN_MAX_VAR)
     else
       bind (lift (np_divide 1 r)) (\<lambda>inv.
       bind (lift (math_log10 (r - inv))) (\<lambda>l.
       setattr (\<lambda>s. s\<lparr>SNRwall := Some (10 * l)\<rparr>))))"

text \<open>The local \<^verbatim>\<open>noiseVariance\<close> of \<^verbatim>\<open>calcSNR\<close> (line 213).\<close>

definition calcSNR_noiseVariance :: "real action" where
  "calcSNR_noiseVariance =
     bind (getattr noiseVarMin) (\<lambda>mn.
     bind (getattr rho) (\<lambda>r.
     return (mn * r)))"

definition calcSNR :: "unit action" where
  "calcSNR =
     bind calcSNR_noiseVariance (\<lambda>noiseVariance.
     bind (getattr pureEEGVar) (\<lambda>p.
     bind (\<lambda>s. (Inr (consciousEEGgain s ^ 2 * p), s)) (\<lambda>c.
     seq (setattr (\<lambda>s. s\<lparr>consciousEEGvar := Some c\<rparr>)) (
     bind (lift (np_divide c noiseVariance)) (\<lambda>q.
     bind (lift (math_log10 q)) (\<lambda>l.
     setattr (\<lambda>s. s\<lparr>SNR := Some (10 * l)\<rparr>)))))))"

subsection \<open>All calculations in one go (lines 217 to 237)\<close>

definition doAllCalcs :: "library \<Rightarrow> int \<Rightarrow> int \<Rightarrow> unit action" where
  "doAllCalcs L minEEGSignalFrequencyBand maxEEGSignalFrequencyBand =
     seq (setattr (\<lambda>s. s\<lparr>f_signal_min := minEEGSignalFrequencyBand\<rparr>)) (
     seq (setattr (\<lambda>s. s\<lparr>f_signal_max := maxEEGSignalFrequencyBand\<rparr>)) (
     bind (\<lambda>s. (Inr (dataok s), s)) (\<lambda>ok.
     if \<not> ok then raise (NoiseWallException DATA_INVALID)
     else
       seq (calculateParalysedEEGVariance L) (
       seq (calcNoiseVarMin L) (
       seq (calcNoiseVarMax L) (
       seq calcRho (
       seq calcNoiseWall
       calcSNR)))))))"

definition getSNRwall :: "real action" where
  "getSNRwall = getattr SNRwall"

definition getSNR :: "real action" where
  "getSNR = getattr SNR"

subsection \<open>Predicates of the properties\<close>

definition nonneg :: "real list \<Rightarrow> bool" where
  "nonneg xs = list_all (\<lambda>x. 0 \<le> x) xs"

text \<open>
  \<open>ensures I m Q\<close>: started in an object that satisfies \<open>I\<close>, the method \<open>m\<close> leaves an
  object that satisfies \<open>I\<close>, whether it returns or raises, and a value it returns
  satisfies \<open>Q\<close>.
\<close>

definition ensures :: "(NoiseWall \<Rightarrow> bool) \<Rightarrow> 'a action \<Rightarrow> ('a \<Rightarrow> bool) \<Rightarrow> bool" where
  "ensures I m Q =
     (\<forall>s. I s \<longrightarrow> (case m s of (Inl e, s') \<Rightarrow> I s' | (Inr a, s') \<Rightarrow> I s' \<and> Q a))"

subsection \<open>The claims' own words\<close>

text \<open>
  The validity marker as the specification words it: a token is accepted when, letters
  compared without regard to case, it is \<^verbatim>\<open>true\<close> or \<^verbatim>\<open>ok\<close>.
\<close>

definition to_lower :: "char \<Rightarrow> char" where
  "to_lower c =
     (case map_of (zip ''ABCDEFGHIJKLMNOPQRSTUVWXYZ'' ''abcdefghijklmnopqrstuvwxyz'') c of
        Some l \<Rightarrow> l
      | None \<Rightarrow> c)"

definition spec_marker_valid :: "string \<Rightarrow> bool" where
  "spec_marker_valid d = (map to_lower d = ''true'' \<or> map to_lower d = ''ok'')"

text \<open>
  The integral of a power spectrum through a filter response, as the specification
  words it: the sum over the whole frequencies \<open>f\<close> from \<open>lo\<close> to \<open>hi\<close>, both included,
  of ten to the log-power at \<open>f\<close> times the squared response at \<open>f\<close>.
\<close>

definition spec_band_integral :: "(int \<Rightarrow> real) \<Rightarrow> real list \<Rightarrow> int \<Rightarrow> int \<Rightarrow> real" where
  "spec_band_integral logpower resp lo hi =
     sum_list (map (\<lambda>f. 10 powr logpower f * (resp ! nat f) ^ 2) [lo..hi])"

definition reference_tables :: "string list" where
  "reference_tables = [''sub1a.dat'', ''sub1b.dat'', ''sub1c.dat'', ''sub2a.dat'', ''sub2b.dat'', ''sub2c.dat'']"

subsection \<open>Concrete inputs\<close>

text \<open>
  The variance as numpy computes it by default: the mean of the squared deviations
  from the mean.
\<close>

definition mean :: "real list \<Rightarrow> real" where
  "mean xs = sum_list xs / real (length xs)"

definition variance :: "real list \<Rightarrow> real" where
  "variance xs = mean (map (\<lambda>x. (x - mean xs) ^ 2) xs)"

text \<open>
  A small dataset and stand-ins for the routines: the recording has four samples, the
  quiet window covers all four, there is one artefact window, every reference spectrum
  is flat (log-power 0), every filter is a gain (1 for the lowpass, the highpass and the
  bandpass, 1/2 for a band-stop) and the median of a list is its first element.
\<close>

definition demo :: library where
  "demo =
     \<lparr>loadtxt_token = (\<lambda>_. ''True''),
      loadtxt_table = (\<lambda>_. [(0, 250, 0, 0), (1, - 250, 0, 0), (2, 250, 0, 0), (3, - 250, 0, 0)]),
      loadtxt_scalar = (\<lambda>_. 0),
      loadtxt_rows = (\<lambda>_. [(0, 2 / 1000)]),
      loadtxt_pair = (\<lambda>_. (0, 4 / 1000)),
      interp1d_cubic = (\<lambda>_ _. Inr (\<lambda>_. Inr 0)),
      np_var = variance,
      np_median = (\<lambda>xs. case xs of [] \<Rightarrow> 0 | x # _ \<Rightarrow> x),
      butter = (\<lambda>_ _ bt. Inr (if bt = Bandstop then [1 / 2] else [1], [1])),
      lfilter = (\<lambda>b _ x. map (\<lambda>v. sum_list b * v) x),
      freqz = (\<lambda>b _ n. replicate (nat n) (of_real (sum_list b)))\<rparr>"

subsection \<open>Concrete objects\<close>

text \<open>The demo recording of subject 1, loaded by the constructor.\<close>

definition recording :: NoiseWall where
  "recording = init demo 1 ''rest''"

text \<open>The object as the constructor leaves it when the validity marker is not accepted.\<close>

definition unloaded :: NoiseWall where
  "unloaded =
     \<lparr>f_signal_min = 1, f_signal_max = 95, noiseReduction = 1, consciousEEGgain = 1,
      dataok = False, subdir = ''../dataset_676/experiment_data/subj01/rest/'',
      data = None, zero_data = None, zero_video = None, artefact = None,
      relaxed = None, t = None, eeg = None, emg = None, trigger = None, fs = None,
      T = None, eegFilterFrequencyResponse = None, pureEEGVar = None,
      noiseVarMin = None, noiseVarMax = None, rho = None, SNRwall = None,
      consciousEEGvar = None, SNR = None\<rparr>"

section \<open>Properties\<close>

lemmas action_defs = bind_def seq_def return_def raise_def lift_def getattr_def setattr_def

subsection \<open>The variance ratio, the wall and the noise floor\<close>

lemma calcRho_run:
  assumes "noiseVarMin s = Some mn" "noiseVarMax s = Some mx" "mn \<noteq> 0" "0 \<le> mx / mn"
  shows "calcRho s = (Inr (), s\<lparr>rho := Some (sqrt (mx / mn))\<rparr>)"
  using assms by (simp add: calcRho_def action_defs np_divide_def np_sqrt_def)

lemma calcNoiseWall_above:
  assumes "rho s = Some r" "1 < r"
  shows "calcNoiseWall s = (Inr (), s\<lparr>SNRwall := Some (10 * log 10 (r - 1 / r))\<rparr>)"
proof -
  have "1 / r < 1" using assms by simp
  then have "0 < r - 1 / r" using assms by linarith
  then show ?thesis using assms
    by (simp add: calcNoiseWall_def action_defs np_divide_def math_log10_def)
qed

lemma calcNoiseWall_below:
  assumes "rho s = Some r" "r < 1"
  shows "calcNoiseWall s = (Inl (NoiseWallException MIN_VAR_LARGER_THAN_MAX_VAR), s)"
  using assms by (simp add: calcNoiseWall_def action_defs)

lemma calcNoiseWall_one:
  assumes "rho s = Some 1"
  shows "calcNoiseWall s = (Inl ValueError, s)"
  using assms by (simp add: calcNoiseWall_def action_defs np_divide_def math_log10_def)

text \<open>
  Claim C1, as the code has it.  Whatever value \<open>r\<close> the attribute \<^verbatim>\<open>rho\<close> holds:
  when \<open>r > 1\<close>, \<^verbatim>\<open>calcNoiseWall\<close> returns without raising and has set \<^verbatim>\<open>SNRwall\<close> to
  \<open>10 * log10 (r - 1/r)\<close>, every other attribute unchanged; when \<open>r < 1\<close> it raises
  the \<^verbatim>\<open>NoiseWallException\<close> with reason \<^verbatim>\<open>MIN_VAR_LARGER_THAN_MAX_VAR\<close> and changes
  nothing.  The value \<open>r = 1\<close> is left out: there the method raises, see the
  counterexample.
\<close>

theorem calcNoiseWall_rho:
  assumes "rho s = Some r"
  shows "(1 < r \<longrightarrow> calcNoiseWall s = (Inr (), s\<lparr>SNRwall := Some (10 * log 10 (r - 1 / r))\<rparr>))
       \<and> (r < 1 \<longrightarrow> calcNoiseWall s = (Inl (NoiseWallException MIN_VAR_LARGER_THAN_MAX_VAR), s))"
  using assms calcNoiseWall_above calcNoiseWall_below by blast

text \<open>Claim C1, witness: \<^verbatim>\<open>rho\<close> is 2, then 1/2.\<close>

theorem calcNoiseWall_rho_witness:
  "calcNoiseWall (unloaded\<lparr>rho := Some 2\<rparr>)
     = (Inr (), unloaded\<lparr>rho := Some 2, SNRwall := Some (10 * log 10 (3 / 2))\<rparr>)
   \<and> calcNoiseWall (unloaded\<lparr>rho := Some (1 / 2)\<rparr>)
     = (Inl (NoiseWallException MIN_VAR_LARGER_THAN_MAX_VAR), unloaded\<lparr>rho := Some (1 / 2)\<rparr>)"
  using calcNoiseWall_rho [of "unloaded\<lparr>rho := Some 2\<rparr>" 2]
        calcNoiseWall_rho [of "unloaded\<lparr>rho := Some (1 / 2)\<rparr>" "1 / 2"]
  by simp

text \<open>
  Claim C1, counterexample: both variances are 1, so \<^verbatim>\<open>calcRho\<close> stores \<open>rho = 1\<close>,
  which satisfies \<open>rho \<ge> 1\<close>, and \<^verbatim>\<open>calcNoiseWall\<close> raises \<^verbatim>\<open>ValueError\<close> and sets no
  \<^verbatim>\<open>SNRwall\<close>.
\<close>

theorem calcNoiseWall_rho_ge_one_raises:
  "seq calcRho calcNoiseWall (unloaded\<lparr>noiseVarMin := Some 1, noiseVarMax := Some 1\<rparr>)
     = (Inl ValueError, unloaded\<lparr>noiseVarMin := Some 1, noiseVarMax := Some 1, rho := Some 1\<rparr>)
   \<and> (1 :: real) \<ge> 1"
  by (simp add: calcRho_def calcNoiseWall_def action_defs np_divide_def np_sqrt_def math_log10_def)

lemma min_times_rho:
  assumes "0 < mn" "0 \<le> mx"
  shows "mn * sqrt (mx / mn) = sqrt (mn * mx)"
proof -
  have "mn * sqrt (mx / mn) = sqrt (mn ^ 2) * sqrt (mx / mn)" using assms by simp
  also have "\<dots> = sqrt (mn ^ 2 * (mx / mn))" by (simp only: real_sqrt_mult)
  also have "mn ^ 2 * (mx / mn) = mn * mx" using assms by (simp add: power2_eq_square)
  finally show ?thesis .
qed

lemma geometric_mean_is_max:
  assumes "0 < mn" "0 \<le> mx"
  shows "sqrt (mn * mx) = mx \<longleftrightarrow> mx = mn \<or> mx = 0"
proof
  assume h: "sqrt (mn * mx) = mx"
  have "mn * mx = (sqrt (mn * mx)) ^ 2" using assms by simp
  also have "\<dots> = mx * mx" using h by (simp add: power2_eq_square)
  finally have "mx * (mn - mx) = 0" by (simp add: algebra_simps)
  then show "mx = mn \<or> mx = 0" by auto
next
  assume "mx = mn \<or> mx = 0"
  then show "sqrt (mn * mx) = mx" using assms by auto
qed

text \<open>
  Claim C2, as the code has it.  For a recording with \<open>noiseVarMin > 0\<close> and
  \<open>noiseVarMax \<ge> 0\<close>, the noise-floor variance that \<^verbatim>\<open>calcSNR\<close> uses after \<^verbatim>\<open>calcRho\<close>,
  \<open>noiseVarMin * rho\<close>, is \<open>sqrt (noiseVarMin * noiseVarMax)\<close>, the geometric mean of
  the two variances.  It is the maximum variance only when the two variances are
  equal or the maximum is zero.
\<close>

theorem calcSNR_noiseVariance_geometric_mean:
  assumes "noiseVarMin s = Some mn" "noiseVarMax s = Some mx" "0 < mn" "0 \<le> mx"
  shows "seq calcRho calcSNR_noiseVariance s
           = (Inr (sqrt (mn * mx)), s\<lparr>rho := Some (sqrt (mx / mn))\<rparr>)
       \<and> (sqrt (mn * mx) = mx \<longleftrightarrow> mx = mn \<or> mx = 0)"
proof -
  have "calcRho s = (Inr (), s\<lparr>rho := Some (sqrt (mx / mn))\<rparr>)"
    using assms by (intro calcRho_run) simp_all
  then have "seq calcRho calcSNR_noiseVariance s
               = (Inr (mn * sqrt (mx / mn)), s\<lparr>rho := Some (sqrt (mx / mn))\<rparr>)"
    using assms by (simp add: calcSNR_noiseVariance_def action_defs)
  then show ?thesis
    using min_times_rho [OF assms(3,4)] geometric_mean_is_max [OF assms(3,4)] by simp
qed

text \<open>Claim C2, witness: the variances are 1 and 9, the noise floor is 3.\<close>

theorem calcSNR_noiseVariance_geometric_mean_witness:
  "seq calcRho calcSNR_noiseVariance (unloaded\<lparr>noiseVarMin := Some 1, noiseVarMax := Some 9\<rparr>)
     = (Inr 3, unloaded\<lparr>noiseVarMin := Some 1, noiseVarMax := Some 9, rho := Some 3\<rparr>)"
  using calcSNR_noiseVariance_geometric_mean
          [of "unloaded\<lparr>noiseVarMin := Some 1, noiseVarMax := Some 9\<rparr>" 1 9]
  by simp

text \<open>
  Claim C2, counterexample: the variances are 1 and 4; \<^verbatim>\<open>rho\<close> is 2 and the noise floor
  is 2, not the maximum variance 4.
\<close>

theorem calcSNR_noiseVariance_not_max:
  "fst (seq calcRho calcSNR_noiseVariance (unloaded\<lparr>noiseVarMin := Some 1, noiseVarMax := Some 4\<rparr>))
     = Inr 2
   \<and> noiseVarMax (unloaded\<lparr>noiseVarMin := Some 1, noiseVarMax := Some 4\<rparr>) = Some 4
   \<and> (2 :: real) \<noteq> 4"
  by (simp add: calcRho_def calcSNR_noiseVariance_def action_defs np_divide_def np_sqrt_def)

text \<open>
  Claim C10.  When the minimum and the maximum variance are the same number (not
  zero), \<^verbatim>\<open>calcRho\<close> stores \<open>rho = 1\<close>; the guard \<open>rho < 1\<close> of \<^verbatim>\<open>calcNoiseWall\<close> does
  not fire, \<open>rho - 1/rho\<close> is zero and \<^verbatim>\<open>math.log10\<close> raises \<^verbatim>\<open>ValueError\<close> (math domain
  error).  The exception is no \<^verbatim>\<open>NoiseWallException\<close>, whatever the reason, and
  \<^verbatim>\<open>SNRwall\<close> is not set.
\<close>

theorem calcNoiseWall_equal_variances:
  assumes "noiseVarMin s = Some v" "noiseVarMax s = Some v" "v \<noteq> 0"
  shows "seq calcRho calcNoiseWall s = (Inl ValueError, s\<lparr>rho := Some 1\<rparr>)
       \<and> (\<forall>reason. fst (seq calcRho calcNoiseWall s) \<noteq> Inl (NoiseWallException reason))"
proof -
  have "calcRho s = (Inr (), s\<lparr>rho := Some 1\<rparr>)"
    using calcRho_run [OF assms(1,2,3)] assms(3) by simp
  moreover have "calcNoiseWall (s\<lparr>rho := Some 1\<rparr>) = (Inl ValueError, s\<lparr>rho := Some 1\<rparr>)"
    by (rule calcNoiseWall_one) simp
  ultimately show ?thesis by (simp add: action_defs)
qed

text \<open>Claim C10, witness: both variances are 3.\<close>

theorem calcNoiseWall_equal_variances_witness:
  "seq calcRho calcNoiseWall (unloaded\<lparr>noiseVarMin := Some 3, noiseVarMax := Some 3\<rparr>)
     = (Inl ValueError, unloaded\<lparr>noiseVarMin := Some 3, noiseVarMax := Some 3, rho := Some 1\<rparr>)"
  using calcNoiseWall_equal_variances
          [of "unloaded\<lparr>noiseVarMin := Some 3, noiseVarMax := Some 3\<rparr>" 3]
  by simp

subsection \<open>The validity marker\<close>

text \<open>
  Claim C5, as the code has it.  The constructor records the recording as valid exactly
  when the token read from \<^verbatim>\<open>all_exp_ok.dat\<close> is one of the four strings \<^verbatim>\<open>True\<close>,
  \<^verbatim>\<open>true\<close>, \<^verbatim>\<open>ok\<close>, \<^verbatim>\<open>OK\<close>, letter for letter.
\<close>

theorem init_dataok:
  "dataok (init L subj experiment)
     \<longleftrightarrow> loadtxt_token L (dataset676dir @ ''/experiment_data/subj'' @ format_02d subj @ ''/all_exp_ok.dat'')
           \<in> {''True'', ''true'', ''ok'', ''OK''}"
  by (simp add: init_def Let_def loadDataFromFile_def)

text \<open>Claim C5, witness: the token \<^verbatim>\<open>OK\<close> for subject 7.\<close>

theorem init_dataok_witness:
  "dataok (init (demo\<lparr>loadtxt_token := (\<lambda>_. ''OK'')\<rparr>) 7 ''rest'')"
  using init_dataok [of "demo\<lparr>loadtxt_token := (\<lambda>_. ''OK'')\<rparr>" 7 "''rest''"]
  by simp

text \<open>
  Claim C5, counterexample: the token \<^verbatim>\<open>TRUE\<close> is \<^verbatim>\<open>true\<close> without regard to case, and the
  constructor records the recording as invalid.
\<close>

theorem init_rejects_TRUE:
  "spec_marker_valid ''TRUE''
   \<and> \<not> dataok (init (demo\<lparr>loadtxt_token := (\<lambda>_. ''TRUE'')\<rparr>) 1 ''rest'')"
  by (simp add: spec_marker_valid_def to_lower_def init_def Let_def loadDataFromFile_def)

subsection \<open>An invalid recording\<close>

text \<open>
  Claim C6.  On a recording whose validity flag is false, \<^verbatim>\<open>doAllCalcs\<close> raises the
  \<^verbatim>\<open>NoiseWallException\<close> with reason \<^verbatim>\<open>DATA_INVALID\<close>, and the object it leaves is the
  object it was given with the two band limits stored: no reference variance, no
  minimum or maximum variance, no rho, no wall and no SNR has been computed or written.
\<close>

theorem doAllCalcs_invalid:
  assumes "\<not> dataok s"
  shows "doAllCalcs L lo hi s
         = (Inl (NoiseWallException DATA_INVALID), s\<lparr>f_signal_min := lo, f_signal_max := hi\<rparr>)"
  using assms by (simp add: doAllCalcs_def action_defs)

text \<open>Claim C6, witness: the object of a rejected marker, with the default band.\<close>

theorem doAllCalcs_invalid_witness:
  "doAllCalcs demo 1 95 unloaded = (Inl (NoiseWallException DATA_INVALID), unloaded)"
  using doAllCalcs_invalid [of unloaded demo 1 95] by (simp add: unloaded_def)

subsection \<open>The minimum noise variance\<close>

lemma getMinNoiseVarEEGChunk_state:
  "snd (getMinNoiseVarEEGChunk s) = s"
  by (simp add: getMinNoiseVarEEGChunk_def action_defs Let_def split: option.splits)

lemma reasons_differ:
  "MIN_VAR_NEG \<noteq> MIN_VAR_UNUSUALLY_HIGH"
  by (simp add: MIN_VAR_NEG_def MIN_VAR_UNUSUALLY_HIGH_def)

lemma calcNoiseVarMin_run:
  assumes "fst (getMinNoiseVarEEGChunk s) = Inr chunk"
    and "noiseReduction s \<noteq> 0"
  shows "calcNoiseVarMin L s =
     ((if np_var L (map (\<lambda>y. y / noiseReduction s) chunk) < 0
         then Inl (NoiseWallException MIN_VAR_NEG)
       else if sqrt (np_var L (map (\<lambda>y. y / noiseReduction s) chunk)) > 50 / 10 ^ 6
         then Inl (NoiseWallException MIN_VAR_UNUSUALLY_HIGH)
       else Inr ()),
      s\<lparr>noiseVarMin := Some (np_var L (map (\<lambda>y. y / noiseReduction s) chunk))\<rparr>)"
proof -
  have "getMinNoiseVarEEGChunk s = (Inr chunk, s)"
    using assms(1) getMinNoiseVarEEGChunk_state [of s] by (cases "getMinNoiseVarEEGChunk s") simp
  then show ?thesis using assms(2)
    by (simp add: calcNoiseVarMin_def bind_def seq_def return_def raise_def setattr_def getattr_def
        np_array_divide_def Let_def)
qed

lemma variance_nonneg: "0 \<le> variance xs"
  unfolding variance_def mean_def
  by (intro divide_nonneg_nonneg sum_list_nonneg) auto

text \<open>
  Claim C7.  Let \<open>chunk\<close> be the quiet-window slice that \<^verbatim>\<open>getMinNoiseVarEEGChunk\<close>
  returns and \<open>v\<close> the variance, as the variance routine gives it, of the chunk divided
  by the noise-reduction factor (not zero).  \<^verbatim>\<open>calcNoiseVarMin\<close> raises \<^verbatim>\<open>MIN_VAR_NEG\<close>
  when \<open>v\<close> is negative, raises \<^verbatim>\<open>MIN_VAR_UNUSUALLY_HIGH\<close> exactly when the square root of
  \<open>v\<close> exceeds \<open>50e-6\<close>, and otherwise returns without raising; \<open>v\<close> is stored as
  \<^verbatim>\<open>noiseVarMin\<close>.  The variance routine is a parameter, so a negative \<open>v\<close> can be
  given; with the true variance it never is (\<open>variance_nonneg\<close>).
\<close>

theorem calcNoiseVarMin_checks:
  assumes "fst (getMinNoiseVarEEGChunk s) = Inr chunk"
    and "noiseReduction s \<noteq> 0"
    and "v = np_var L (map (\<lambda>y. y / noiseReduction s) chunk)"
  shows "(v < 0 \<longrightarrow>
            calcNoiseVarMin L s = (Inl (NoiseWallException MIN_VAR_NEG), s\<lparr>noiseVarMin := Some v\<rparr>))
       \<and> (fst (calcNoiseVarMin L s) = Inl (NoiseWallException MIN_VAR_UNUSUALLY_HIGH)
            \<longleftrightarrow> sqrt v > 50 / 10 ^ 6)
       \<and> (\<not> v < 0 \<and> \<not> sqrt v > 50 / 10 ^ 6 \<longrightarrow>
            calcNoiseVarMin L s = (Inr (), s\<lparr>noiseVarMin := Some v\<rparr>))"
proof -
  have neg: "v < 0 \<Longrightarrow> \<not> sqrt v > 50 / 10 ^ 6"
  proof -
    assume "v < 0"
    then have "sqrt v < 0" by simp
    moreover have "(0 :: real) < 50 / 10 ^ 6" by simp
    ultimately show ?thesis by linarith
  qed
  show ?thesis
    unfolding calcNoiseVarMin_run [OF assms(1,2)] assms(3) [symmetric]
    using neg reasons_differ by auto
qed

text \<open>
  Claim C7, witness: the loaded demo recording with a variance routine that answers
  \<open>-1\<close>; the same recording with the true variance (the chunk 1, -1, 1, -1 has variance
  1); and a quiet window of one sample (variance 0).
\<close>

theorem calcNoiseVarMin_checks_witness:
  "calcNoiseVarMin (demo\<lparr>np_var := (\<lambda>_. - 1)\<rparr>) (init demo 1 ''rest'')
     = (Inl (NoiseWallException MIN_VAR_NEG), (init demo 1 ''rest'')\<lparr>noiseVarMin := Some (- 1)\<rparr>)
   \<and> fst (calcNoiseVarMin demo (init demo 1 ''rest''))
     = Inl (NoiseWallException MIN_VAR_UNUSUALLY_HIGH)
   \<and> calcNoiseVarMin demo ((init demo 1 ''rest'')\<lparr>relaxed := Some (0, 1 / 1000)\<rparr>)
     = (Inr (), (init demo 1 ''rest'')\<lparr>relaxed := Some (0, 1 / 1000), noiseVarMin := Some 0\<rparr>)"
proof -
  have c1: "fst (getMinNoiseVarEEGChunk (init demo 1 ''rest'')) = Inr [1, - 1, 1, - 1]"
    by (simp add: getMinNoiseVarEEGChunk_def action_defs init_def Let_def loadDataFromFile_def
        demo_def py_int_def py_slice_def)
  have c2: "fst (getMinNoiseVarEEGChunk ((init demo 1 ''rest'')\<lparr>relaxed := Some (0, 1 / 1000)\<rparr>))
              = Inr [1]"
    by (simp add: getMinNoiseVarEEGChunk_def action_defs init_def Let_def loadDataFromFile_def
        demo_def py_int_def py_slice_def)
  have n: "noiseReduction (init demo 1 ''rest'') = 1"
    by (simp add: init_def Let_def loadDataFromFile_def demo_def)
  have v1: "variance [1, - 1, 1, - 1] = 1" by (simp add: variance_def mean_def)
  have v2: "variance [1] = 0" by (simp add: variance_def mean_def)
  show ?thesis
    using calcNoiseVarMin_checks [of "init demo 1 ''rest''" "[1, - 1, 1, - 1]" "- 1"
                                     "demo\<lparr>np_var := (\<lambda>_. - 1)\<rparr>"]
          calcNoiseVarMin_checks [of "init demo 1 ''rest''" "[1, - 1, 1, - 1]" 1 demo]
          calcNoiseVarMin_checks [of "(init demo 1 ''rest'')\<lparr>relaxed := Some (0, 1 / 1000)\<rparr>"
                                     "[1]" 0 demo]
          c1 c2 n v1 v2
    by (simp add: demo_def)
qed

subsection \<open>The reference EEG variance\<close>

lemma bandpower_loop_run:
  assumes "eegFilterFrequencyResponse s = Some resp"
    and "\<And>f. f \<in> set fr \<Longrightarrow> 0 \<le> f \<and> f < int (length resp) \<and> psd (of_int f) = Inr (lp f)"
  shows "bandpower_loop psd fr acc s
           = (Inr (acc + sum_list (map (\<lambda>f. 10 powr lp f * (resp ! nat f) ^ 2) fr)), s)"
  using assms(2)
proof (induction fr arbitrary: acc)
  case Nil
  then show ?case by (simp add: return_def)
next
  case (Cons f rest)
  have f: "0 \<le> f" "f < int (length resp)" "psd (of_int f) = Inr (lp f)"
    using Cons.prems [of f] by simp_all
  have "bandpower_loop psd (f # rest) acc s
          = bandpower_loop psd rest (acc + 10 powr lp f * (resp ! nat f) ^ 2) s"
    using f assms(1) by (simp add: bind_def lift_def getattr_def np_getitem_def)
  also have "\<dots> = (Inr (acc + 10 powr lp f * (resp ! nat f) ^ 2
                       + sum_list (map (\<lambda>f. 10 powr lp f * (resp ! nat f) ^ 2) rest)), s)"
    using Cons.prems by (intro Cons.IH) simp
  finally show ?case by (simp add: add.assoc)
qed

lemma readParalysed_run:
  assumes "eegFilterFrequencyResponse s = Some resp"
    and "0 \<le> f_signal_min s" and "f_signal_max s \<le> int (length resp)"
    and "interp1d_cubic L (map fst (loadtxt_rows L tab)) (map snd (loadtxt_rows L tab)) = Inr psd"
    and "\<And>f. f_signal_min s \<le> f \<Longrightarrow> f < f_signal_max s \<Longrightarrow> psd (of_int f) = Inr (lp f)"
  shows "readParalysedEEGVarianceFromWhithamEtAl L tab s
           = (Inr (spec_band_integral lp resp (f_signal_min s) (f_signal_max s - 1)), s)"
proof -
  have "bandpower_loop psd [f_signal_min s..f_signal_max s - 1] 0 s
          = (Inr (0 + sum_list (map (\<lambda>f. 10 powr lp f * (resp ! nat f) ^ 2)
                                  [f_signal_min s..f_signal_max s - 1])), s)"
    using assms(2,3,5) by (intro bandpower_loop_run [OF assms(1)]) auto
  then show ?thesis using assms(4)
    by (simp add: readParalysedEEGVarianceFromWhithamEtAl_def Let_def bind_def lift_def
        np_arange_def spec_band_integral_def)
qed

lemma add_pureEEGVar_run:
  assumes "eegFilterFrequencyResponse s = Some resp"
    and "0 \<le> f_signal_min s" and "f_signal_max s \<le> int (length resp)"
    and "interp1d_cubic L (map fst (loadtxt_rows L tab)) (map snd (loadtxt_rows L tab)) = Inr psd"
    and "\<And>f. f_signal_min s \<le> f \<Longrightarrow> f < f_signal_max s \<Longrightarrow> psd (of_int f) = Inr (lp f)"
    and "pureEEGVar s = Some v"
  shows "add_pureEEGVar L tab s
           = (Inr (), s\<lparr>pureEEGVar :=
                 Some (v + spec_band_integral lp resp (f_signal_min s) (f_signal_max s - 1))\<rparr>)"
  using readParalysed_run [OF assms(1-5)] assms(6)
  by (simp add: add_pureEEGVar_def bind_def getattr_def setattr_def)

text \<open>
  Claim C4, as the code has it.  When the accumulated filter response is set and covers
  the band (\<open>0 \<le> f_signal_min\<close>, \<open>f_signal_max \<le>\<close> its length) and each of the six
  reference tables interpolates to a log-power at every whole frequency of the band,
  \<^verbatim>\<open>calculateParalysedEEGVariance\<close> stores as \<^verbatim>\<open>pureEEGVar\<close> the average over the six tables
  of a per-table sum, over the whole frequencies \<open>f\<close> from \<open>f_signal_min\<close> up to
  \<open>f_signal_max - 1\<close> (\<open>f_signal_max\<close> itself is left out, as \<^verbatim>\<open>np.arange\<close> does), of ten
  to the log-power at \<open>f\<close> times the squared response at \<open>f\<close>.
\<close>

theorem calculateParalysedEEGVariance_sum:
  assumes "eegFilterFrequencyResponse s = Some resp"
    and "0 \<le> f_signal_min s" and "f_signal_max s \<le> int (length resp)"
    and "\<And>tab. tab \<in> set reference_tables \<Longrightarrow>
           interp1d_cubic L (map fst (loadtxt_rows L tab)) (map snd (loadtxt_rows L tab))
             = Inr (psd tab)"
    and "\<And>tab f. tab \<in> set reference_tables \<Longrightarrow> f_signal_min s \<le> f \<Longrightarrow> f < f_signal_max s \<Longrightarrow>
           psd tab (of_int f) = Inr (logpower tab f)"
  shows "calculateParalysedEEGVariance L s
           = (Inr (), s\<lparr>pureEEGVar :=
                Some (sum_list (map (\<lambda>tab. spec_band_integral (logpower tab) resp
                                               (f_signal_min s) (f_signal_max s - 1))
                                  reference_tables) / 6)\<rparr>)"
proof -
  have step: "\<And>tab v. tab \<in> set reference_tables \<Longrightarrow>
      add_pureEEGVar L tab (s\<lparr>pureEEGVar := Some v\<rparr>)
        = (Inr (), s\<lparr>pureEEGVar :=
             Some (v + spec_band_integral (logpower tab) resp (f_signal_min s) (f_signal_max s - 1))\<rparr>)"
  proof -
    fix tab v
    assume m: "tab \<in> set reference_tables"
    show "add_pureEEGVar L tab (s\<lparr>pureEEGVar := Some v\<rparr>)
        = (Inr (), s\<lparr>pureEEGVar :=
             Some (v + spec_band_integral (logpower tab) resp (f_signal_min s) (f_signal_max s - 1))\<rparr>)"
      using add_pureEEGVar_run [of "s\<lparr>pureEEGVar := Some v\<rparr>" resp L tab "psd tab" "logpower tab" v]
        assms(1,2,3) assms(4) [OF m] assms(5) [OF m]
      by simp
  qed
  show ?thesis
    by (simp add: calculateParalysedEEGVariance_def seq_def bind_def setattr_def getattr_def
        step reference_tables_def)
qed

text \<open>
  Claim C4, witness: a flat response 1 over three bins, flat spectra of log-power 0 and the
  band from 1 to 3: each table gives 2 (the bins 1 and 2), the average is 2.
\<close>

theorem calculateParalysedEEGVariance_sum_witness:
  "calculateParalysedEEGVariance demo
     (unloaded\<lparr>f_signal_min := 1, f_signal_max := 3, eegFilterFrequencyResponse := Some [1, 1, 1]\<rparr>)
   = (Inr (), unloaded\<lparr>f_signal_min := 1, f_signal_max := 3,
         eegFilterFrequencyResponse := Some [1, 1, 1], pureEEGVar := Some 2\<rparr>)"
  using calculateParalysedEEGVariance_sum
    [of "unloaded\<lparr>f_signal_min := 1, f_signal_max := 3, eegFilterFrequencyResponse := Some [1, 1, 1]\<rparr>"
        "[1, 1, 1]" demo "\<lambda>_ _. Inr 0" "\<lambda>_ _. 0"]
  by (simp add: demo_def spec_band_integral_def reference_tables_def upto_rec1)

text \<open>
  Claim C4, counterexample: the band from 1 to 2.  The code sums the bin 1 alone and stores
  1; the sum over the bins 1 and 2, both included, averaged over the six tables, is 2.
\<close>

theorem calculateParalysedEEGVariance_excludes_max:
  "pureEEGVar (snd (calculateParalysedEEGVariance demo
     (unloaded\<lparr>f_signal_min := 1, f_signal_max := 2, eegFilterFrequencyResponse := Some [1, 1, 1]\<rparr>)))
     = Some 1
   \<and> sum_list (map (\<lambda>tab. spec_band_integral (\<lambda>_. 0) [1, 1, 1] 1 2) reference_tables) / 6 = 2"
  by (simp add: calculateParalysedEEGVariance_def add_pureEEGVar_def
      readParalysedEEGVarianceFromWhithamEtAl_def Let_def np_arange_def np_getitem_def
      action_defs demo_def spec_band_integral_def reference_tables_def upto_rec1)

subsection \<open>The filter pipeline, evaluated\<close>

lemma normalised_run:
  assumes "fs s = Some rate" "rate \<noteq> 0"
  shows "normalised f s = (Inr (f / of_int rate * 2), s)"
  using assms by (simp add: normalised_def action_defs py_divide_def)

lemma apply_lfilter_run:
  assumes "eeg s = Some x"
  shows "apply_lfilter L b a s = (Inr (), s\<lparr>eeg := Some (lfilter L b a x)\<rparr>)"
  using assms by (simp add: apply_lfilter_def action_defs)

lemma calcFrequencyResponse_first:
  assumes "fs s = Some rate"
  shows "calcFrequencyResponse L b a [] s
           = (Inr (map cmod (freqz L b a (py_int (of_int rate / 2)))), s)"
  using assms by (simp add: calcFrequencyResponse_def action_defs)

lemma calcFrequencyResponse_next:
  assumes "fs s = Some rate"
    and "length (freqz L b a (py_int (of_int rate / 2))) = n" and "length h_in = n"
  shows "calcFrequencyResponse L b a h_in s
           = (Inr (map (\<lambda>k. cmod (freqz L b a (py_int (of_int rate / 2)) ! k) * h_in ! k) [0..<n]), s)"
proof (cases "n = 0")
  case True
  then show ?thesis using assms by (simp add: calcFrequencyResponse_def action_defs)
next
  case False
  have "map2 (\<lambda>x y. x * y) (map cmod (freqz L b a (py_int (of_int rate / 2)))) h_in
          = map (\<lambda>k. cmod (freqz L b a (py_int (of_int rate / 2)) ! k) * h_in ! k) [0..<n]"
    using assms(2,3) by (intro nth_equalityI) simp_all
  then show ?thesis using False assms
    by (simp add: calcFrequencyResponse_def action_defs np_multiply_def)
qed

lemma filterData_smooth_run:
  assumes "fs s = Some rate" "rate \<noteq> 0" "eeg s = Some x"
    and "butter L 6 [100 / of_int rate * 2] Lowpass = Inr (bLP, aLP)"
  shows "filterData_smooth L s
           = (Inr (map cmod (freqz L bLP aLP (py_int (of_int rate / 2)))),
              s\<lparr>eeg := Some (lfilter L bLP aLP x)\<rparr>)"
  using assms
  by (simp add: filterData_smooth_def bind_def seq_def lift_def normalised_run apply_lfilter_run
      calcFrequencyResponse_first)

lemma filterData_highpass_notch_run:
  assumes "fs s = Some rate" "rate \<noteq> 0" "eeg s = Some x"
    and "butter L 2 [49 / of_int rate * 2, 51 / of_int rate * 2] Bandstop = Inr (b50, a50)"
    and "butter L 4 [0.5 / of_int rate * 2] Highpass = Inr (bhp, ahp)"
    and "length (freqz L bhp ahp (py_int (of_int rate / 2))) = n" and "length fresp = n"
  shows "filterData_highpass_notch L fresp s
           = (Inr (map (\<lambda>k. cmod (freqz L bhp ahp (py_int (of_int rate / 2)) ! k) * fresp ! k) [0..<n]),
              s\<lparr>eeg := Some (lfilter L bhp ahp (lfilter L b50 a50 x))\<rparr>)"
proof -
  have "calcFrequencyResponse L bhp ahp fresp (s\<lparr>eeg := Some (lfilter L bhp ahp (lfilter L b50 a50 x))\<rparr>)
          = (Inr (map (\<lambda>k. cmod (freqz L bhp ahp (py_int (of_int rate / 2)) ! k) * fresp ! k) [0..<n]),
             s\<lparr>eeg := Some (lfilter L bhp ahp (lfilter L b50 a50 x))\<rparr>)"
    using assms(1,6,7) by (intro calcFrequencyResponse_next) simp_all
  then show ?thesis using assms(1-5)
    by (simp add: filterData_highpass_notch_def bind_def seq_def lift_def normalised_run
        getattr_def setattr_def)
qed

lemma filterData_notch25_run:
  assumes "fs s = Some rate" "rate \<noteq> 0" "eeg s = Some x"
    and "butter L 2 [24 / of_int rate * 2, 26 / of_int rate * 2] Bandstop = Inr (b25, a25)"
    and "length (freqz L b25 a25 (py_int (of_int rate / 2))) = n" and "length fresp = n"
  shows "filterData_notch25 L fresp s
           = (Inr (map (\<lambda>k. cmod (freqz L b25 a25 (py_int (of_int rate / 2)) ! k) * fresp ! k) [0..<n]),
              s\<lparr>eeg := Some (lfilter L b25 a25 x)\<rparr>)"
proof -
  have "calcFrequencyResponse L b25 a25 fresp (s\<lparr>eeg := Some (lfilter L b25 a25 x)\<rparr>)
          = (Inr (map (\<lambda>k. cmod (freqz L b25 a25 (py_int (of_int rate / 2)) ! k) * fresp ! k) [0..<n]),
             s\<lparr>eeg := Some (lfilter L b25 a25 x)\<rparr>)"
    using assms(1,5,6) by (intro calcFrequencyResponse_next) simp_all
  then show ?thesis using assms(1-4)
    by (simp add: filterData_notch25_def bind_def seq_def lift_def normalised_run apply_lfilter_run)
qed

lemma filterData_notch50_run:
  assumes "fs s = Some rate" "rate \<noteq> 0" "eeg s = Some x"
    and "butter L 2 [49 / of_int rate * 2, 51 / of_int rate * 2] Bandstop = Inr (b50, a50)"
    and "length (freqz L b50 a50 (py_int (of_int rate / 2))) = n" and "length fresp = n"
  shows "filterData_notch50 L fresp s
           = (Inr (map (\<lambda>k. cmod (freqz L b50 a50 (py_int (of_int rate / 2)) ! k) * fresp ! k) [0..<n]),
              s\<lparr>eeg := Some (lfilter L b50 a50 x)\<rparr>)"
proof -
  have "calcFrequencyResponse L b50 a50 fresp (s\<lparr>eeg := Some (lfilter L b50 a50 x)\<rparr>)
          = (Inr (map (\<lambda>k. cmod (freqz L b50 a50 (py_int (of_int rate / 2)) ! k) * fresp ! k) [0..<n]),
             s\<lparr>eeg := Some (lfilter L b50 a50 x)\<rparr>)"
    using assms(1,5,6) by (intro calcFrequencyResponse_next) simp_all
  then show ?thesis using assms(1-4)
    by (simp add: filterData_notch50_def bind_def seq_def lift_def normalised_run apply_lfilter_run)
qed

lemma filterData_stages_run:
  assumes "fs s = Some rate" "rate \<noteq> 0" "eeg s = Some x"
    and "butter L 6 [100 / of_int rate * 2] Lowpass = Inr (bLP, aLP)"
    and "butter L 2 [49 / of_int rate * 2, 51 / of_int rate * 2] Bandstop = Inr (b50, a50)"
    and "butter L 4 [0.5 / of_int rate * 2] Highpass = Inr (bhp, ahp)"
    and "butter L 2 [24 / of_int rate * 2, 26 / of_int rate * 2] Bandstop = Inr (b25, a25)"
    and "\<And>b a. length (freqz L b a (py_int (of_int rate / 2))) = n"
  shows "filterData_stages L s
           = (Inr (map (\<lambda>k. cmod (freqz L bLP aLP (py_int (of_int rate / 2)) ! k)
                          * cmod (freqz L bhp ahp (py_int (of_int rate / 2)) ! k)
                          * cmod (freqz L b25 a25 (py_int (of_int rate / 2)) ! k)
                          * cmod (freqz L b50 a50 (py_int (of_int rate / 2)) ! k)) [0..<n]),
              s\<lparr>eeg := Some (lfilter L b50 a50 (lfilter L b25 a25 (lfilter L bhp ahp
                               (lfilter L b50 a50 (lfilter L bLP aLP x)))))\<rparr>)"
proof -
  let ?w = "py_int (of_int rate / 2)"
  let ?f1 = "map cmod (freqz L bLP aLP ?w)"
  let ?f2 = "map (\<lambda>k. cmod (freqz L bhp ahp ?w ! k) * ?f1 ! k) [0..<n]"
  let ?f3 = "map (\<lambda>k. cmod (freqz L b25 a25 ?w ! k) * ?f2 ! k) [0..<n]"
  let ?f4 = "map (\<lambda>k. cmod (freqz L b50 a50 ?w ! k) * ?f3 ! k) [0..<n]"
  let ?s1 = "s\<lparr>eeg := Some (lfilter L bLP aLP x)\<rparr>"
  let ?s2 = "s\<lparr>eeg := Some (lfilter L bhp ahp (lfilter L b50 a50 (lfilter L bLP aLP x)))\<rparr>"
  let ?s3 = "s\<lparr>eeg := Some (lfilter L b25 a25 (lfilter L bhp ahp (lfilter L b50 a50
                (lfilter L bLP aLP x))))\<rparr>"
  let ?s4 = "s\<lparr>eeg := Some (lfilter L b50 a50 (lfilter L b25 a25 (lfilter L bhp ahp
                (lfilter L b50 a50 (lfilter L bLP aLP x)))))\<rparr>"
  have r1: "filterData_smooth L s = (Inr ?f1, ?s1)"
    by (rule filterData_smooth_run [OF assms(1,2,3,4)])
  have r2: "filterData_highpass_notch L ?f1 ?s1 = (Inr ?f2, ?s2)"
    using filterData_highpass_notch_run [of ?s1 rate "lfilter L bLP aLP x" L b50 a50 bhp ahp n ?f1]
      assms(1,2,5,6,8) by simp
  have r3: "filterData_notch25 L ?f2 ?s2 = (Inr ?f3, ?s3)"
    using filterData_notch25_run
            [of ?s2 rate "lfilter L bhp ahp (lfilter L b50 a50 (lfilter L bLP aLP x))" L b25 a25 n ?f2]
      assms(1,2,7,8) by simp
  have r4: "filterData_notch50 L ?f3 ?s3 = (Inr ?f4, ?s4)"
    using filterData_notch50_run
            [of ?s3 rate "lfilter L b25 a25 (lfilter L bhp ahp (lfilter L b50 a50 (lfilter L bLP aLP x)))"
                L b50 a50 n ?f3]
      assms(1,2,5,8) by simp
  have flat: "?f4 = map (\<lambda>k. cmod (freqz L bLP aLP ?w ! k) * cmod (freqz L bhp ahp ?w ! k)
                          * cmod (freqz L b25 a25 ?w ! k) * cmod (freqz L b50 a50 ?w ! k)) [0..<n]"
    using assms(8) by (intro nth_equalityI) (simp_all add: mult_ac)
  have "filterData_stages L s = (Inr ?f4, ?s4)"
    by (simp add: filterData_stages_def bind_def r1 r2 r3 r4)
  then show ?thesis by (simp only: flat)
qed

text \<open>
  Claim C3, what the code does.  On a loaded recording, with the filter designs
  succeeding and every frequency response of the same length \<open>n\<close>, lines 116 to 135
  pass the signal through five filters (lowpass, 49 to 51 Hz band-stop, highpass, 24 to
  26 Hz band-stop, 49 to 51 Hz band-stop) and leave in \<^verbatim>\<open>fresp\<close> the product of four
  magnitude responses: the 49 to 51 Hz band-stop is counted once, not twice.
\<close>

theorem filterData_stages_fresp:
  assumes "fs s = Some rate" "rate \<noteq> 0" "eeg s = Some x"
    and "butter L 6 [100 / of_int rate * 2] Lowpass = Inr (bLP, aLP)"
    and "butter L 2 [49 / of_int rate * 2, 51 / of_int rate * 2] Bandstop = Inr (b50, a50)"
    and "butter L 4 [0.5 / of_int rate * 2] Highpass = Inr (bhp, ahp)"
    and "butter L 2 [24 / of_int rate * 2, 26 / of_int rate * 2] Bandstop = Inr (b25, a25)"
    and "\<And>b a. length (freqz L b a (py_int (of_int rate / 2))) = n"
  shows "filterData_stages L s
           = (Inr (map (\<lambda>k. cmod (freqz L bLP aLP (py_int (of_int rate / 2)) ! k)
                          * cmod (freqz L bhp ahp (py_int (of_int rate / 2)) ! k)
                          * cmod (freqz L b25 a25 (py_int (of_int rate / 2)) ! k)
                          * cmod (freqz L b50 a50 (py_int (of_int rate / 2)) ! k)) [0..<n]),
              s\<lparr>eeg := Some (lfilter L b50 a50 (lfilter L b25 a25 (lfilter L bhp ahp
                               (lfilter L b50 a50 (lfilter L bLP aLP x)))))\<rparr>)"
  by (rule filterData_stages_run [OF assms])

lemma demo_loaded:
  "fs recording = Some 1000"
  "eeg recording = Some [1, - 1, 1, - 1]"
  "eegFilterFrequencyResponse recording = None"
  by (simp_all add: recording_def init_def Let_def loadDataFromFile_def demo_def)

lemma demo_routines:
  "butter demo k w bt = Inr (if bt = Bandstop then [1 / 2] else [1], [1])"
  "lfilter demo b a x = map (\<lambda>v. sum_list b * v) x"
  "freqz demo b a n = replicate (nat n) (of_real (sum_list b))"
  by (simp_all add: demo_def)

lemma demo_worN: "py_int 500 = 500" "py_int (real_of_int 1000 / 2) = 500"
  by (simp_all add: py_int_def)

lemma demo_product:
  "map (\<lambda>k. cmod (freqz demo [1] [1] 500 ! k) * cmod (freqz demo [1] [1] 500 ! k)
               * cmod (freqz demo [1 / 2] [1] 500 ! k) * cmod (freqz demo [1 / 2] [1] 500 ! k))
     [0..<500]
   = replicate 500 (1 / 4 :: real)"
  by (intro nth_equalityI) (simp_all add: demo_routines)

lemma demo_stages:
  "filterData_stages demo recording
     = (Inr (replicate 500 (1 / 4)),
        recording\<lparr>eeg := Some [1 / 8, - (1 / 8), 1 / 8, - (1 / 8)]\<rparr>)"
proof -
  have "filterData_stages demo recording
     = (Inr (map (\<lambda>k. cmod (freqz demo [1] [1] (py_int (real_of_int 1000 / 2)) ! k)
                      * cmod (freqz demo [1] [1] (py_int (real_of_int 1000 / 2)) ! k)
                      * cmod (freqz demo [1 / 2] [1] (py_int (real_of_int 1000 / 2)) ! k)
                      * cmod (freqz demo [1 / 2] [1] (py_int (real_of_int 1000 / 2)) ! k)) [0..<500]),
        recording\<lparr>eeg := Some (lfilter demo [1 / 2] [1] (lfilter demo [1 / 2] [1]
           (lfilter demo [1] [1] (lfilter demo [1 / 2] [1] (lfilter demo [1] [1] [1, - 1, 1, - 1])))))\<rparr>)"
    by (rule filterData_stages_run [OF demo_loaded(1) _ demo_loaded(2)])
       (simp_all add: demo_routines demo_worN)
  then show ?thesis
    unfolding demo_worN demo_product by (simp add: demo_routines)
qed

text \<open>
  Claim C3, witness: the demo recording.  Every band-stop is the gain 1/2, every other
  filter the gain 1: the signal leaves scaled by 1/8 (three band-stops) while \<^verbatim>\<open>fresp\<close> is
  1/4 in each of its 500 bins (two band-stops); the product of all five responses would
  be 1/8.
\<close>

theorem filterData_stages_fresp_witness:
  "filterData_stages demo recording
     = (Inr (replicate 500 (1 / 4)),
        recording\<lparr>eeg := Some [1 / 8, - (1 / 8), 1 / 8, - (1 / 8)]\<rparr>)"
proof -
  have "filterData_stages demo recording
     = (Inr (map (\<lambda>k. cmod (freqz demo [1] [1] (py_int (real_of_int 1000 / 2)) ! k)
                      * cmod (freqz demo [1] [1] (py_int (real_of_int 1000 / 2)) ! k)
                      * cmod (freqz demo [1 / 2] [1] (py_int (real_of_int 1000 / 2)) ! k)
                      * cmod (freqz demo [1 / 2] [1] (py_int (real_of_int 1000 / 2)) ! k)) [0..<500]),
        recording\<lparr>eeg := Some (lfilter demo [1 / 2] [1] (lfilter demo [1 / 2] [1]
           (lfilter demo [1] [1] (lfilter demo [1 / 2] [1] (lfilter demo [1] [1] [1, - 1, 1, - 1])))))\<rparr>)"
    by (rule filterData_stages_fresp [OF demo_loaded(1) _ demo_loaded(2)])
       (simp_all add: demo_routines demo_worN)
  then show ?thesis
    unfolding demo_worN demo_product by (simp add: demo_routines)
qed

lemma demo_bandpass:
  "filterData demo 8 12 recording
     = (Inr (), recording\<lparr>eeg := Some [1 / 8, - (1 / 8), 1 / 8, - (1 / 8)],
                   eegFilterFrequencyResponse := Some (replicate 500 (1 / 4))\<rparr>)"
proof -
  let ?s = "recording\<lparr>eeg := Some [1 / 8, - (1 / 8), 1 / 8, - (1 / 8)]\<rparr>"
  have f: "fs ?s = Some 1000" by (simp add: demo_loaded)
  have e: "eeg ?s = Some [1 / 8, - (1 / 8), 1 / 8, - (1 / 8)]" by simp
  have p: "map (\<lambda>k. cmod (freqz demo [1] [1] (py_int (real_of_int 1000 / 2)) ! k)
                      * replicate 500 (1 / 4) ! k) [0..<500] = replicate 500 (1 / 4 :: real)"
    by (intro nth_equalityI) (simp_all add: demo_routines demo_worN)
  have "calcFrequencyResponse demo [1] [1] (replicate 500 (1 / 4)) ?s
          = (Inr (map (\<lambda>k. cmod (freqz demo [1] [1] (py_int (real_of_int 1000 / 2)) ! k)
                             * replicate 500 (1 / 4) ! k) [0..<500]), ?s)"
    by (rule calcFrequencyResponse_next [OF f]) (simp_all add: demo_routines demo_worN)
  then have c: "calcFrequencyResponse demo [1] [1] (replicate 500 (1 / 4)) ?s
                  = (Inr (replicate 500 (1 / 4)), ?s)"
    unfolding p .
  have "filterData_band demo 8 12 (replicate 500 (1 / 4)) ?s
          = (Inr (), ?s\<lparr>eegFilterFrequencyResponse := Some (replicate 500 (1 / 4))\<rparr>)"
    by (simp add: filterData_band_def bind_def seq_def lift_def return_def setattr_def
        normalised_run [OF f] apply_lfilter_run [OF e] demo_routines c)
  then show ?thesis
    by (simp add: filterData_def bind_def demo_stages)
qed

subsection \<open>Invariants of the filter pipeline\<close>

lemma ensuresI:
  assumes "\<And>s e s'. I s \<Longrightarrow> m s = (Inl e, s') \<Longrightarrow> I s'"
    and "\<And>s a s'. I s \<Longrightarrow> m s = (Inr a, s') \<Longrightarrow> I s' \<and> Q a"
  shows "ensures I m Q"
  unfolding ensures_def
proof (intro allI impI)
  fix s assume i: "I s"
  obtain r s' where ms: "m s = (r, s')" by (cases "m s")
  show "case m s of (Inl e, s') \<Rightarrow> I s' | (Inr a, s') \<Rightarrow> I s' \<and> Q a"
  proof (cases r)
    case (Inl e)
    then show ?thesis using assms(1) [OF i] ms by simp
  next
    case (Inr a)
    then show ?thesis using assms(2) [OF i] ms by simp
  qed
qed

lemma ensures_raised:
  assumes "ensures I m Q" "I s" "m s = (Inl e, s')"
  shows "I s'"
proof -
  have "case m s of (Inl e, s') \<Rightarrow> I s' | (Inr a, s') \<Rightarrow> I s' \<and> Q a"
    using assms(1) [unfolded ensures_def, rule_format, OF assms(2)] .
  then show ?thesis by (simp add: assms(3))
qed

lemma ensures_returned:
  assumes "ensures I m Q" "I s" "m s = (Inr a, s')"
  shows "I s' \<and> Q a"
proof -
  have "case m s of (Inl e, s') \<Rightarrow> I s' | (Inr a, s') \<Rightarrow> I s' \<and> Q a"
    using assms(1) [unfolded ensures_def, rule_format, OF assms(2)] .
  then show ?thesis by (simp add: assms(3))
qed

lemma ensures_bind:
  assumes "ensures I m Q" and "\<And>a. Q a \<Longrightarrow> ensures I (f a) R"
  shows "ensures I (bind m f) R"
proof (rule ensuresI)
  fix s e s' assume i: "I s" and b: "bind m f s = (Inl e, s')"
  obtain r s1 where ms: "m s = (r, s1)" by (cases "m s")
  show "I s'"
  proof (cases r)
    case (Inl e1)
    then have "s' = s1" using b ms by (simp add: bind_def)
    then show ?thesis using ensures_raised [OF assms(1) i] ms Inl by simp
  next
    case (Inr a)
    then have q: "I s1 \<and> Q a" using ensures_returned [OF assms(1) i] ms by simp
    have "f a s1 = (Inl e, s')" using b ms Inr by (simp add: bind_def)
    then show ?thesis using ensures_raised [OF assms(2), of a s1 e s'] q by simp
  qed
next
  fix s a s' assume i: "I s" and b: "bind m f s = (Inr a, s')"
  obtain r s1 where ms: "m s = (r, s1)" by (cases "m s")
  show "I s' \<and> R a"
  proof (cases r)
    case (Inl e1)
    then show ?thesis using b ms by (simp add: bind_def)
  next
    case (Inr a1)
    then have q: "I s1 \<and> Q a1" using ensures_returned [OF assms(1) i] ms by simp
    have "f a1 s1 = (Inr a, s')" using b ms Inr by (simp add: bind_def)
    then show ?thesis using ensures_returned [OF assms(2), of a1 s1 a s'] q by simp
  qed
qed

lemma ensures_bind_any:
  assumes "ensures I m (\<lambda>_. True)" and "\<And>a. ensures I (f a) R"
  shows "ensures I (bind m f) R"
  by (rule ensures_bind [OF assms(1)]) (rule assms(2))

lemma ensures_seq:
  assumes "ensures I m (\<lambda>_. True)" and "ensures I k R"
  shows "ensures I (seq m k) R"
  unfolding seq_def by (rule ensures_bind_any [OF assms(1)]) (rule assms(2))

lemma ensures_return: "Q a \<Longrightarrow> ensures I (return a) Q"
  by (rule ensuresI) (simp_all add: return_def)

lemma ensures_lift: "ensures I (lift r) (\<lambda>_. True)"
  by (rule ensuresI) (simp_all add: lift_def)

lemma ensures_lift_value:
  assumes "\<And>a. r = Inr a \<Longrightarrow> Q a"
  shows "ensures I (lift r) Q"
  using assms by (intro ensuresI) (simp_all add: lift_def)

lemma ensures_getattr: "ensures I (getattr field) (\<lambda>_. True)"
proof (rule ensuresI)
  fix s e s' assume "I s" "getattr field s = (Inl e, s')"
  then show "I s'" by (cases "field s") (simp_all add: getattr_def)
next
  fix s a s' assume "I s" "getattr field s = (Inr a, s')"
  then show "I s' \<and> True" by (cases "field s") (simp_all add: getattr_def)
qed

lemma ensures_setattr:
  assumes "\<And>s. I s \<Longrightarrow> I (upd s)"
  shows "ensures I (setattr upd) (\<lambda>_. True)"
  using assms by (intro ensuresI) (auto simp add: setattr_def)

lemma ensures_prod:
  assumes "\<And>b a. ensures I (f b a) R"
  shows "ensures I (case_prod f p) R"
  using assms by (cases p) simp

lemma ensures_if:
  assumes "c \<Longrightarrow> ensures I m R" and "\<not> c \<Longrightarrow> ensures I k R"
  shows "ensures I (if c then m else k) R"
  using assms by simp

lemma normalised_ensures: "ensures I (normalised f) (\<lambda>_. True)"
  unfolding normalised_def
  by (intro ensures_bind_any ensures_getattr ensures_lift ensures_return) simp

lemma apply_lfilter_ensures:
  assumes "\<And>s v. I s \<Longrightarrow> I (s\<lparr>eeg := v\<rparr>)"
  shows "ensures I (apply_lfilter L b a) (\<lambda>_. True)"
  unfolding apply_lfilter_def
  by (intro ensures_bind_any ensures_getattr ensures_setattr assms)

lemma nonneg_np_multiply:
  assumes "np_multiply xs ys = Inr r" and "nonneg xs" and "nonneg ys"
  shows "nonneg r"
proof -
  have m: "\<And>x y. x \<in> set xs \<Longrightarrow> y \<in> set ys \<Longrightarrow> 0 \<le> x * y"
    using assms(2,3) by (simp add: nonneg_def list_all_iff)
  consider (eq) "length xs = length ys" | (l) "length xs \<noteq> length ys" "length xs = 1"
    | (r) "length xs \<noteq> length ys" "length xs \<noteq> 1" "length ys = 1"
    | (bad) "length xs \<noteq> length ys" "length xs \<noteq> 1" "length ys \<noteq> 1"
    by blast
  then show ?thesis
  proof cases
    case eq
    then have r: "r = map2 (\<lambda>x y. x * y) xs ys" using assms(1) by (simp add: np_multiply_def)
    show ?thesis unfolding r nonneg_def list_all_iff
    proof
      fix z assume "z \<in> set (map2 (\<lambda>x y. x * y) xs ys)"
      then obtain x y where "(x, y) \<in> set (zip xs ys)" "z = x * y" by auto
      then show "0 \<le> z" using m [of x y] by (auto dest: set_zip_leftD set_zip_rightD)
    qed
  next
    case l
    then have r: "r = map (\<lambda>y. hd xs * y) ys" using assms(1) by (simp add: np_multiply_def)
    have "hd xs \<in> set xs" using l(2) by (cases xs) simp_all
    then show ?thesis unfolding r nonneg_def list_all_iff using m by auto
  next
    case r
    then have r': "r = map (\<lambda>x. x * hd ys) xs" using assms(1) by (simp add: np_multiply_def)
    have "hd ys \<in> set ys" using r(3) by (cases ys) simp_all
    then show ?thesis unfolding r' nonneg_def list_all_iff using m by auto
  next
    case bad
    then show ?thesis using assms(1) by (simp add: np_multiply_def)
  qed
qed

lemma nonneg_cmod: "nonneg (map cmod zs)"
  by (simp add: nonneg_def list_all_iff)


lemma calcFrequencyResponse_ensures:
  assumes "nonneg h_in"
  shows "ensures I (calcFrequencyResponse L b a h_in) nonneg"
  unfolding calcFrequencyResponse_def Let_def
proof (intro ensures_bind_any ensures_getattr ensures_if)
  fix rate :: int
  show "ensures I (return (map cmod (freqz L b a (py_int (real_of_int rate / 2))))) nonneg"
    by (intro ensures_return nonneg_cmod)
  show "ensures I (lift (np_multiply (map cmod (freqz L b a (py_int (real_of_int rate / 2)))) h_in)) nonneg"
    by (rule ensures_lift_value) (rule nonneg_np_multiply [OF _ nonneg_cmod assms])
qed

lemma nonneg_Nil: "nonneg []"
  by (simp add: nonneg_def)

lemma filterData_smooth_ensures:
  assumes "\<And>s v. I s \<Longrightarrow> I (s\<lparr>eeg := v\<rparr>)"
  shows "ensures I (filterData_smooth L) nonneg"
  unfolding filterData_smooth_def
  by (intro ensures_bind_any normalised_ensures ensures_lift ensures_prod ensures_seq
      apply_lfilter_ensures calcFrequencyResponse_ensures nonneg_Nil assms)

lemma filterData_highpass_notch_ensures:
  assumes "\<And>s v. I s \<Longrightarrow> I (s\<lparr>eeg := v\<rparr>)" and "nonneg fresp"
  shows "ensures I (filterData_highpass_notch L fresp) nonneg"
  unfolding filterData_highpass_notch_def
  by (intro ensures_bind_any normalised_ensures ensures_lift ensures_prod ensures_seq
      ensures_getattr ensures_setattr calcFrequencyResponse_ensures assms)

lemma filterData_notch25_ensures:
  assumes "\<And>s v. I s \<Longrightarrow> I (s\<lparr>eeg := v\<rparr>)" and "nonneg fresp"
  shows "ensures I (filterData_notch25 L fresp) nonneg"
  unfolding filterData_notch25_def
  by (intro ensures_bind_any normalised_ensures ensures_lift ensures_prod ensures_seq
      apply_lfilter_ensures calcFrequencyResponse_ensures assms)

lemma filterData_notch50_ensures:
  assumes "\<And>s v. I s \<Longrightarrow> I (s\<lparr>eeg := v\<rparr>)" and "nonneg fresp"
  shows "ensures I (filterData_notch50 L fresp) nonneg"
  unfolding filterData_notch50_def
  by (intro ensures_bind_any normalised_ensures ensures_lift ensures_prod ensures_seq
      apply_lfilter_ensures calcFrequencyResponse_ensures assms)

lemma filterData_stages_ensures:
  assumes "\<And>s v. I s \<Longrightarrow> I (s\<lparr>eeg := v\<rparr>)"
  shows "ensures I (filterData_stages L) nonneg"
  unfolding filterData_stages_def
  by (intro ensures_bind [where Q = nonneg] filterData_smooth_ensures
      filterData_highpass_notch_ensures filterData_notch25_ensures filterData_notch50_ensures assms)

lemma filterData_repeat_ensures:
  assumes "\<And>s v. I s \<Longrightarrow> I (s\<lparr>eeg := v\<rparr>)"
    and "\<And>s h. I s \<Longrightarrow> nonneg h \<Longrightarrow> I (s\<lparr>eegFilterFrequencyResponse := Some h\<rparr>)"
    and "nonneg fresp"
  shows "ensures I (filterData_repeat L b a n fresp) (\<lambda>_. True)"
  using assms(3)
proof (induction n arbitrary: fresp)
  case 0
  show ?case by (simp add: ensures_return)
next
  case (Suc n)
  show ?case
    unfolding filterData_repeat.simps
  proof (intro ensures_seq apply_lfilter_ensures assms(1)
      ensures_bind [where Q = nonneg] calcFrequencyResponse_ensures Suc.prems)
    fix h assume h: "nonneg h"
    show "ensures I (setattr (\<lambda>s. s\<lparr>eegFilterFrequencyResponse := Some h\<rparr>)) (\<lambda>_. True)"
      by (rule ensures_setattr) (rule assms(2) [OF _ h])
    show "ensures I (filterData_repeat L b a n h) (\<lambda>_. True)"
      by (rule Suc.IH [OF h])
  qed
qed

lemma store_response_ensures:
  assumes "\<And>s h. I s \<Longrightarrow> nonneg h \<Longrightarrow> I (s\<lparr>eegFilterFrequencyResponse := Some h\<rparr>)"
    and "nonneg fresp"
  shows "ensures I
          (bind (calcFrequencyResponse L b a fresp)
             (\<lambda>h. setattr (\<lambda>s. s\<lparr>eegFilterFrequencyResponse := Some h\<rparr>)))
          (\<lambda>_. True)"
proof (rule ensures_bind [where Q = nonneg, OF calcFrequencyResponse_ensures [OF assms(2)]])
  fix h assume h: "nonneg h"
  show "ensures I (setattr (\<lambda>s. s\<lparr>eegFilterFrequencyResponse := Some h\<rparr>)) (\<lambda>_. True)"
    by (rule ensures_setattr) (rule assms(1) [OF _ h])
qed

lemma filterData_band_ensures:
  assumes "\<And>s v. I s \<Longrightarrow> I (s\<lparr>eeg := v\<rparr>)"
    and "\<And>s h. I s \<Longrightarrow> nonneg h \<Longrightarrow> I (s\<lparr>eegFilterFrequencyResponse := Some h\<rparr>)"
    and "nonneg fresp"
  shows "ensures I (filterData_band L band_low band_high fresp) (\<lambda>_. True)"
  unfolding filterData_band_def
proof (rule ensures_seq)
  show "ensures I
     (if 0 < band_high \<and> 0 < band_low \<and> band_low < band_high
      then bind (normalised band_low) (\<lambda>w1.
           bind (normalised band_high) (\<lambda>w2.
           bind (lift (butter L 4 [w1, w2] Bandpass)) (\<lambda>(bfiltbp, afiltbp).
           seq (apply_lfilter L bfiltbp afiltbp)
             (bind (calcFrequencyResponse L bfiltbp afiltbp fresp)
                (\<lambda>h. setattr (\<lambda>s. s\<lparr>eegFilterFrequencyResponse := Some h\<rparr>))))))
      else return ())
     (\<lambda>_. True)"
    apply (rule ensures_if)
     apply (rule ensures_bind_any [OF normalised_ensures])
     apply (rule ensures_bind_any [OF normalised_ensures])
     apply (rule ensures_bind_any [OF ensures_lift])
     apply (rule ensures_prod)
     apply (rule ensures_seq [OF apply_lfilter_ensures [where I = I]])
      apply (erule assms(1))
     apply (rule store_response_ensures [where I = I])
      apply (erule assms(2), assumption)
     apply (rule assms(3))
    apply (rule ensures_return)
    apply (rule TrueI)
    done
  show "ensures I
     (if band_low < 0
      then filterData_repeat L [0.25, 0.25, 0.25, 0.25, - 0.25, - 0.25, - 0.25, - 0.25] [1]
             (nat (- py_int band_low)) fresp
      else return ())
     (\<lambda>_. True)"
    apply (rule ensures_if)
     apply (rule filterData_repeat_ensures [where I = I])
       apply (erule assms(1))
      apply (erule assms(2), assumption)
     apply (rule assms(3))
    apply (rule ensures_return)
    apply (rule TrueI)
    done
qed

lemma filterData_ensures:
  assumes "\<And>s v. I s \<Longrightarrow> I (s\<lparr>eeg := v\<rparr>)"
    and "\<And>s h. I s \<Longrightarrow> nonneg h \<Longrightarrow> I (s\<lparr>eegFilterFrequencyResponse := Some h\<rparr>)"
  shows "ensures I (filterData L band_low band_high) (\<lambda>_. True)"
  unfolding filterData_def
  by (intro ensures_bind [where Q = nonneg] filterData_stages_ensures filterData_band_ensures assms)

lemma ensures_value:
  assumes "ensures (\<lambda>_. True) m Q" and "fst (m s) = Inr r"
  shows "Q r"
proof -
  obtain s' where "m s = (Inr r, s')" using assms(2) by (cases "m s") simp
  then show ?thesis using ensures_returned [OF assms(1), of s r s'] by simp
qed

lemma ensures_state:
  assumes "ensures I m Q" and "I s"
  shows "I (snd (m s))"
proof -
  obtain r s' where ms: "m s = (r, s')" by (cases "m s")
  show ?thesis
  proof (cases r)
    case (Inl e)
    then show ?thesis using ensures_raised [OF assms, of e s'] ms by simp
  next
    case (Inr a)
    then show ?thesis using ensures_returned [OF assms, of a s'] ms by simp
  qed
qed

text \<open>
  Claim C9.  The accumulated response is never negative: what \<^verbatim>\<open>calcFrequencyResponse\<close>
  returns from an accumulator without negative entries (the empty default included) has
  none; so has \<^verbatim>\<open>fresp\<close> after each of the four blocks of \<^verbatim>\<open>filterData\<close> and at line
  136; and whatever band \<^verbatim>\<open>filterData\<close> is called with and however it ends, the
  response it has stored in \<^verbatim>\<open>eegFilterFrequencyResponse\<close> has none, provided the one
  stored before, if any, had none.  This holds for every behaviour of the scipy
  routines; numbers are reals, so there is no \<^verbatim>\<open>nan\<close>.
\<close>

theorem fresp_nonneg:
  "(nonneg h_in \<and> fst (calcFrequencyResponse L b a h_in s) = Inr r \<longrightarrow> nonneg r)
   \<and> (fst (filterData_smooth L s) = Inr r \<longrightarrow> nonneg r)
   \<and> (nonneg fresp \<and> fst (filterData_highpass_notch L fresp s) = Inr r \<longrightarrow> nonneg r)
   \<and> (nonneg fresp \<and> fst (filterData_notch25 L fresp s) = Inr r \<longrightarrow> nonneg r)
   \<and> (nonneg fresp \<and> fst (filterData_notch50 L fresp s) = Inr r \<longrightarrow> nonneg r)
   \<and> (fst (filterData_stages L s) = Inr r \<longrightarrow> nonneg r)
   \<and> ((\<forall>h. eegFilterFrequencyResponse s = Some h \<longrightarrow> nonneg h)
        \<and> eegFilterFrequencyResponse (snd (filterData L band_low band_high s)) = Some r
      \<longrightarrow> nonneg r)"
proof (intro conjI impI)
  assume "nonneg h_in \<and> fst (calcFrequencyResponse L b a h_in s) = Inr r"
  then show "nonneg r"
    using ensures_value [OF calcFrequencyResponse_ensures [of h_in "\<lambda>_. True" L b a], of s r] by simp
next
  assume "fst (filterData_smooth L s) = Inr r"
  then show "nonneg r"
    using ensures_value [OF filterData_smooth_ensures [of "\<lambda>_. True" L], of s r] by simp
next
  assume "nonneg fresp \<and> fst (filterData_highpass_notch L fresp s) = Inr r"
  then show "nonneg r"
    using ensures_value [OF filterData_highpass_notch_ensures [of "\<lambda>_. True" fresp L], of s r] by simp
next
  assume "nonneg fresp \<and> fst (filterData_notch25 L fresp s) = Inr r"
  then show "nonneg r"
    using ensures_value [OF filterData_notch25_ensures [of "\<lambda>_. True" fresp L], of s r] by simp
next
  assume "nonneg fresp \<and> fst (filterData_notch50 L fresp s) = Inr r"
  then show "nonneg r"
    using ensures_value [OF filterData_notch50_ensures [of "\<lambda>_. True" fresp L], of s r] by simp
next
  assume "fst (filterData_stages L s) = Inr r"
  then show "nonneg r"
    using ensures_value [OF filterData_stages_ensures [of "\<lambda>_. True" L], of s r] by simp
next
  assume a: "(\<forall>h. eegFilterFrequencyResponse s = Some h \<longrightarrow> nonneg h)
        \<and> eegFilterFrequencyResponse (snd (filterData L band_low band_high s)) = Some r"
  have "ensures (\<lambda>s. \<forall>h. eegFilterFrequencyResponse s = Some h \<longrightarrow> nonneg h)
          (filterData L band_low band_high) (\<lambda>_. True)"
    by (rule filterData_ensures) simp_all
  from ensures_state [OF this, of s] a show "nonneg r" by simp
qed

text \<open>
  Claim C9, witness: the demo recording, \<^verbatim>\<open>fresp\<close> at line 136 and the response stored by
  \<^verbatim>\<open>filterData(8, 12)\<close>.
\<close>

theorem fresp_nonneg_witness:
  "fst (filterData_stages demo recording) = Inr (replicate 500 (1 / 4))
   \<and> eegFilterFrequencyResponse (snd (filterData demo 8 12 recording))
       = Some (replicate 500 (1 / 4))
   \<and> nonneg (replicate 500 (1 / 4))"
  using fresp_nonneg [of "[]" demo "[]" "[]" "recording" "replicate 500 (1 / 4)" "[]" 8 12]
    demo_stages demo_bandpass demo_loaded(3)
  by simp

subsection \<open>A response that is never stored\<close>

lemma bandpower_loop_unset:
  assumes "eegFilterFrequencyResponse s = None" and "fr \<noteq> []"
  shows "isl (fst (bandpower_loop psd fr acc s))"
proof (cases fr)
  case Nil
  then show ?thesis using assms(2) by simp
next
  case (Cons f rest)
  show ?thesis
    by (cases "psd (of_int f)") (simp_all add: Cons bind_def lift_def getattr_def assms(1))
qed

lemma bandpower_loop_unset_AttributeError:
  assumes "eegFilterFrequencyResponse s = None" and "psd (of_int f) = Inr y"
  shows "fst (bandpower_loop psd (f # rest) acc s) = Inl AttributeError"
  using assms by (simp add: bind_def lift_def getattr_def)

lemma np_arange_nonempty: "lo < hi \<Longrightarrow> np_arange lo hi = lo # np_arange (lo + 1) hi"
  by (simp add: np_arange_def upto_rec1)

lemma readParalysed_unset:
  assumes "eegFilterFrequencyResponse s = None" and "f_signal_min s < f_signal_max s"
  shows "isl (fst (readParalysedEEGVarianceFromWhithamEtAl L tab s))"
proof (cases "interp1d_cubic L (map fst (loadtxt_rows L tab)) (map snd (loadtxt_rows L tab))")
  case (Inl e)
  then show ?thesis
    by (simp add: readParalysedEEGVarianceFromWhithamEtAl_def Let_def bind_def lift_def)
next
  case (Inr psd)
  have "np_arange (f_signal_min s) (f_signal_max s) \<noteq> []"
    using np_arange_nonempty [OF assms(2)] by simp
  then have "isl (fst (bandpower_loop psd (np_arange (f_signal_min s) (f_signal_max s)) 0 s))"
    by (rule bandpower_loop_unset [OF assms(1)])
  then show ?thesis using Inr
    by (simp add: readParalysedEEGVarianceFromWhithamEtAl_def Let_def bind_def lift_def)
qed

lemma bind_getattr:
  assumes "field s = Some a"
  shows "bind (getattr field) f s = f a s"
  using assms by (simp add: bind_def getattr_def)

lemma seq_setattr: "seq (setattr upd) k s = k (upd s)"
  by (simp add: seq_def bind_def setattr_def)

lemma isl_bind:
  assumes "isl (fst (m s))"
  shows "isl (fst (bind m f s))"
proof -
  obtain r s' where ms: "m s = (r, s')" by (cases "m s")
  then obtain e where "r = Inl e" using assms by (cases r) simp_all
  then show ?thesis using ms by (simp add: bind_def)
qed

lemma calculateParalysedEEGVariance_unset:
  assumes "eegFilterFrequencyResponse s = None" and "f_signal_min s < f_signal_max s"
  shows "isl (fst (calculateParalysedEEGVariance L s))"
proof -
  let ?s = "s\<lparr>pureEEGVar := Some 0\<rparr>"
  have "isl (fst (readParalysedEEGVarianceFromWhithamEtAl L ''sub1a.dat'' ?s))"
    using assms by (intro readParalysed_unset) simp_all
  then have "isl (fst (bind (readParalysedEEGVarianceFromWhithamEtAl L ''sub1a.dat'')
                         (\<lambda>b. setattr (\<lambda>s. s\<lparr>pureEEGVar := Some (0 + b)\<rparr>)) ?s))"
    by (rule isl_bind)
  moreover have "add_pureEEGVar L ''sub1a.dat'' ?s
                   = bind (readParalysedEEGVarianceFromWhithamEtAl L ''sub1a.dat'')
                       (\<lambda>b. setattr (\<lambda>s. s\<lparr>pureEEGVar := Some (0 + b)\<rparr>)) ?s"
    by (simp add: add_pureEEGVar_def bind_getattr)
  ultimately have "isl (fst (add_pureEEGVar L ''sub1a.dat'' ?s))"
    by simp
  then have "isl (fst (seq (add_pureEEGVar L ''sub1a.dat'') k ?s))" for k :: "unit action"
    unfolding seq_def by (rule isl_bind)
  then show ?thesis
    unfolding calculateParalysedEEGVariance_def seq_setattr .
qed

lemma filterData_keeps_unset:
  assumes "0 \<le> band_low" and "\<not> (band_high > 0 \<and> band_low > 0 \<and> band_low < band_high)"
  shows "ensures (\<lambda>s. eegFilterFrequencyResponse s = None) (filterData L band_low band_high)
           (\<lambda>_. True)"
proof -
  have b: "filterData_band L band_low band_high fresp = seq (return ()) (return ())" for fresp
    using assms by (auto simp add: filterData_band_def)
  show ?thesis
    unfolding filterData_def b
    by (intro ensures_bind [where Q = nonneg] filterData_stages_ensures ensures_seq ensures_return)
       simp_all
qed

lemma raised_bind:
  assumes "fst (m s) = Inl e"
  shows "fst (bind m f s) = Inl e"
proof -
  obtain s' where "m s = (Inl e, s')" using assms by (cases "m s") simp
  then show ?thesis by (simp add: bind_def)
qed

lemma readParalysed_unset_AttributeError:
  assumes "eegFilterFrequencyResponse s = None" and "f_signal_min s < f_signal_max s"
    and "interp1d_cubic L (map fst (loadtxt_rows L tab)) (map snd (loadtxt_rows L tab)) = Inr psd"
    and "psd (of_int (f_signal_min s)) = Inr y"
  shows "fst (readParalysedEEGVarianceFromWhithamEtAl L tab s) = Inl AttributeError"
proof -
  have "readParalysedEEGVarianceFromWhithamEtAl L tab s
          = bandpower_loop psd (np_arange (f_signal_min s) (f_signal_max s)) 0 s"
    using assms(3)
    by (simp add: readParalysedEEGVarianceFromWhithamEtAl_def Let_def bind_def lift_def)
  also have "\<dots> = bandpower_loop psd
                      (f_signal_min s # np_arange (f_signal_min s + 1) (f_signal_max s)) 0 s"
    by (simp only: np_arange_nonempty [OF assms(2), symmetric])
  finally show ?thesis
    by (simp only: bandpower_loop_unset_AttributeError
          [where psd = psd and f = "f_signal_min s" and y = y, OF assms(1,4)])
qed

lemma calculateParalysedEEGVariance_unset_AttributeError:
  assumes "eegFilterFrequencyResponse s = None" and "f_signal_min s < f_signal_max s"
    and "interp1d_cubic L (map fst (loadtxt_rows L ''sub1a.dat''))
           (map snd (loadtxt_rows L ''sub1a.dat'')) = Inr psd"
    and "psd (of_int (f_signal_min s)) = Inr y"
  shows "fst (calculateParalysedEEGVariance L s) = Inl AttributeError"
proof -
  let ?s = "s\<lparr>pureEEGVar := Some 0\<rparr>"
  have "fst (readParalysedEEGVarianceFromWhithamEtAl L ''sub1a.dat'' ?s) = Inl AttributeError"
    using assms by (intro readParalysed_unset_AttributeError [where psd = psd and y = y]) simp_all
  then have "fst (bind (readParalysedEEGVarianceFromWhithamEtAl L ''sub1a.dat'')
                         (\<lambda>b. setattr (\<lambda>s. s\<lparr>pureEEGVar := Some (0 + b)\<rparr>)) ?s) = Inl AttributeError"
    by (rule raised_bind)
  moreover have "add_pureEEGVar L ''sub1a.dat'' ?s
                   = bind (readParalysedEEGVarianceFromWhithamEtAl L ''sub1a.dat'')
                       (\<lambda>b. setattr (\<lambda>s. s\<lparr>pureEEGVar := Some (0 + b)\<rparr>)) ?s"
    by (simp add: add_pureEEGVar_def bind_getattr)
  ultimately have "fst (add_pureEEGVar L ''sub1a.dat'' ?s) = Inl AttributeError"
    by simp
  then have "fst (seq (add_pureEEGVar L ''sub1a.dat'') k ?s) = Inl AttributeError" for k :: "unit action"
    unfolding seq_def by (rule raised_bind)
  then show ?thesis
    unfolding calculateParalysedEEGVariance_def seq_setattr .
qed

text \<open>
  Claim C8.  On an object whose \<^verbatim>\<open>eegFilterFrequencyResponse\<close> was never assigned, a call
  of \<^verbatim>\<open>filterData\<close> with a \<^verbatim>\<open>band_low\<close> that is not negative and a band that is not a
  bandpass (the default call \<^verbatim>\<open>filterData(0, 0)\<close> among them) leaves the attribute
  unassigned, however the call ends.  On the object it leaves, with any band \<open>lo < hi\<close>
  of signal frequencies (so that the loop reads the attribute),
  \<^verbatim>\<open>calculateParalysedEEGVariance\<close> raises and does not return; and when the first
  reference table interpolates at \<open>lo\<close>, what it raises is the \<^verbatim>\<open>AttributeError\<close> of the
  read.
\<close>

theorem filterData_leaves_response_unset:
  assumes "eegFilterFrequencyResponse s = None"
    and "0 \<le> band_low"
    and "\<not> (band_high > 0 \<and> band_low > 0 \<and> band_low < band_high)"
  shows "eegFilterFrequencyResponse (snd (filterData L band_low band_high s)) = None
       \<and> (\<forall>lo hi. lo < hi \<longrightarrow>
            isl (fst (calculateParalysedEEGVariance L
                        ((snd (filterData L band_low band_high s))\<lparr>f_signal_min := lo, f_signal_max := hi\<rparr>))))
       \<and> (\<forall>lo hi psd y. lo < hi
              \<and> interp1d_cubic L (map fst (loadtxt_rows L ''sub1a.dat''))
                    (map snd (loadtxt_rows L ''sub1a.dat'')) = Inr psd
              \<and> psd (of_int lo) = Inr y \<longrightarrow>
            fst (calculateParalysedEEGVariance L
                   ((snd (filterData L band_low band_high s))\<lparr>f_signal_min := lo, f_signal_max := hi\<rparr>))
              = Inl AttributeError)"
proof -
  have u: "eegFilterFrequencyResponse (snd (filterData L band_low band_high s)) = None"
    using ensures_state [OF filterData_keeps_unset [OF assms(2,3)], of s L] assms(1) by simp
  show ?thesis
  proof (intro conjI allI impI)
    show "eegFilterFrequencyResponse (snd (filterData L band_low band_high s)) = None" by (rule u)
  next
    fix lo hi :: int assume "lo < hi"
    then show "isl (fst (calculateParalysedEEGVariance L
                        ((snd (filterData L band_low band_high s))\<lparr>f_signal_min := lo, f_signal_max := hi\<rparr>)))"
      using u by (intro calculateParalysedEEGVariance_unset) simp_all
  next
    fix lo hi :: int and psd y
    assume a: "lo < hi
              \<and> interp1d_cubic L (map fst (loadtxt_rows L ''sub1a.dat''))
                    (map snd (loadtxt_rows L ''sub1a.dat'')) = Inr psd
              \<and> psd (of_int lo) = Inr y"
    show "fst (calculateParalysedEEGVariance L
                   ((snd (filterData L band_low band_high s))\<lparr>f_signal_min := lo, f_signal_max := hi\<rparr>))
              = Inl AttributeError"
      using u a
      by (intro calculateParalysedEEGVariance_unset_AttributeError [where psd = psd and y = y]) simp_all
  qed
qed

text \<open>
  Claim C8, witness: \<^verbatim>\<open>filterData(0, 0)\<close> on the demo recording, then the reference
  variance over the default band 1 to 95.
\<close>

theorem filterData_leaves_response_unset_witness:
  "eegFilterFrequencyResponse (snd (filterData demo 0 0 recording)) = None
   \<and> fst (calculateParalysedEEGVariance demo
            ((snd (filterData demo 0 0 recording))\<lparr>f_signal_min := 1, f_signal_max := 95\<rparr>))
       = Inl AttributeError"
proof -
  have h: "eegFilterFrequencyResponse recording = None" by (rule demo_loaded(3))
  have i: "interp1d_cubic demo (map fst (loadtxt_rows demo ''sub1a.dat''))
             (map snd (loadtxt_rows demo ''sub1a.dat'')) = Inr (\<lambda>_. Inr 0)"
    by (simp add: demo_def)
  have t: "eegFilterFrequencyResponse (snd (filterData demo 0 0 recording)) = None
       \<and> (\<forall>lo hi. lo < hi \<longrightarrow>
            isl (fst (calculateParalysedEEGVariance demo
                        ((snd (filterData demo 0 0 recording))\<lparr>f_signal_min := lo, f_signal_max := hi\<rparr>))))
       \<and> (\<forall>lo hi psd y. lo < hi
              \<and> interp1d_cubic demo (map fst (loadtxt_rows demo ''sub1a.dat''))
                    (map snd (loadtxt_rows demo ''sub1a.dat'')) = Inr psd
              \<and> psd (of_int lo) = Inr y \<longrightarrow>
            fst (calculateParalysedEEGVariance demo
                   ((snd (filterData demo 0 0 recording))\<lparr>f_signal_min := lo, f_signal_max := hi\<rparr>))
              = Inl AttributeError)"
    by (rule filterData_leaves_response_unset [OF h]) simp_all
  from t [THEN conjunct2, THEN conjunct2, rule_format, of 1 95 "\<lambda>_. Inr 0" 0] i
    t [THEN conjunct1]
  show ?thesis by simp
qed

end
